theory Spec2Isabelle
  imports Main "HOL-Library.Word"
begin

section \<open>Model of the pluginrpc Go package\<close>

text \<open>
  A shallow embedding of the core of the \<^verbatim>\<open>pluginrpc\<close> package: status codes, formats,
  RPC errors, exit errors, procedures, specs, the wire envelopes, the server-side handler
  and the client call. Go strings are byte strings (\<open>string\<close>), a nil pointer or nil
  interface is \<open>None\<close>, and a function returning \<^verbatim>\<open>(T, error)\<close> returns \<open>error + T\<close>.
\<close>

subsection \<open>Decimal rendering (\<^verbatim>\<open>strconv.Itoa\<close>, the verb \<^verbatim>\<open>%d\<close>)\<close>

definition digitChar :: "nat \<Rightarrow> char" where
  "digitChar d = ''0123456789'' ! d"

fun formatNat :: "nat \<Rightarrow> string" where
  "formatNat n =
     (if n < 10 then [digitChar n] else formatNat (n div 10) @ [digitChar (n mod 10)])"

declare formatNat.simps [simp del]

definition Itoa :: "int \<Rightarrow> string" where
  "Itoa i = (if i < 0 then CHR ''-'' # formatNat (nat (- i)) else formatNat (nat i))"

subsection \<open>Status codes (code.go)\<close>

text \<open>\<^verbatim>\<open>type Code uint32\<close>; comparisons on words are unsigned, as in Go.\<close>

type_synonym Code = "32 word"

definition CodeCanceled :: Code where "CodeCanceled = 1"
definition CodeUnknown :: Code where "CodeUnknown = 2"
definition CodeInvalidArgument :: Code where "CodeInvalidArgument = 3"
definition CodeDeadlineExceeded :: Code where "CodeDeadlineExceeded = 4"
definition CodeNotFound :: Code where "CodeNotFound = 5"
definition CodeAlreadyExists :: Code where "CodeAlreadyExists = 6"
definition CodePermissionDenied :: Code where "CodePermissionDenied = 7"
definition CodeResourceExhausted :: Code where "CodeResourceExhausted = 8"
definition CodeFailedPrecondition :: Code where "CodeFailedPrecondition = 9"
definition CodeAborted :: Code where "CodeAborted = 10"
definition CodeOutOfRange :: Code where "CodeOutOfRange = 11"
definition CodeUnimplemented :: Code where "CodeUnimplemented = 12"
definition CodeInternal :: Code where "CodeInternal = 13"
definition CodeUnavailable :: Code where "CodeUnavailable = 14"
definition CodeDataLoss :: Code where "CodeDataLoss = 15"
definition CodeUnauthenticated :: Code where "CodeUnauthenticated = 16"

definition minCode :: Code where "minCode = CodeCanceled"
definition maxCode :: Code where "maxCode = CodeUnauthenticated"

definition Code_String :: "Code \<Rightarrow> string" where
  "Code_String c =
     (if c = CodeCanceled then ''canceled''
      else if c = CodeUnknown then ''unknown''
      else if c = CodeInvalidArgument then ''invalid_argument''
      else if c = CodeDeadlineExceeded then ''deadline_exceeded''
      else if c = CodeNotFound then ''not_found''
      else if c = CodeAlreadyExists then ''already_exists''
      else if c = CodePermissionDenied then ''permission_denied''
      else if c = CodeResourceExhausted then ''resource_exhausted''
      else if c = CodeFailedPrecondition then ''failed_precondition''
      else if c = CodeAborted then ''aborted''
      else if c = CodeOutOfRange then ''out_of_range''
      else if c = CodeUnimplemented then ''unimplemented''
      else if c = CodeInternal then ''internal''
      else if c = CodeUnavailable then ''unavailable''
      else if c = CodeDataLoss then ''data_loss''
      else if c = CodeUnauthenticated then ''unauthenticated''
      else ''code_'' @ formatNat (unat c))"

definition isValidCode :: "Code \<Rightarrow> bool" where
  "isValidCode code \<longleftrightarrow> minCode \<le> code \<and> code \<le> maxCode"

subsection \<open>Go error values\<close>

text \<open>
  The values of the interface \<^verbatim>\<open>error\<close> that the package builds and inspects:
  \<^item> \<open>ErrorString s\<close>: \<^verbatim>\<open>errors.New(s)\<close>, or any foreign error with message \<open>s\<close> and no
    \<^verbatim>\<open>Unwrap\<close>;
  \<^item> \<open>FmtWrapError s w\<close>: the result of \<^verbatim>\<open>fmt.Errorf\<close> with one \<^verbatim>\<open>%w\<close>: its message and the
    operand it unwraps to (\<open>None\<close> when the operand was nil);
  \<^item> \<open>ErrorPtr p\<close>: a \<^verbatim>\<open>*Error\<close> stored in the interface (\<open>p = None\<close> is the nil pointer of
    that type, which is a non-nil interface value);
  \<^item> \<open>ExitErrorPtr p\<close>: a \<^verbatim>\<open>*ExitError\<close> stored in the interface.
  The structs \<^verbatim>\<open>Error\<close> (part\_009) and \<^verbatim>\<open>ExitError\<close> (exit\_error.go) hold an \<^verbatim>\<open>error\<close>
  themselves, so the three types are defined together. The exit code is a Go \<^verbatim>\<open>int\<close>; it
  is only compared with 0 and printed, so it is an \<open>int\<close> here.
\<close>

datatype error =
    ErrorString string
  | FmtWrapError string "error option"
  | ErrorPtr "Error option"
  | ExitErrorPtr "ExitError option"
and Error = MkError (Error_code: Code) (Error_underlying: "error option")
and ExitError = MkExitError (ExitError_exitCode: int) (ExitError_underlying: "error option")

text \<open>
  The method \<^verbatim>\<open>Error() string\<close>, dispatched on the dynamic type. \<open>Error_Error\<close> is
  \<^verbatim>\<open>(*Error).Error\<close> and \<open>ExitError_Error\<close> is \<^verbatim>\<open>(*ExitError).Error\<close>; both accept a nil
  receiver.
\<close>

fun error_Error :: "error \<Rightarrow> string"
  and Error_Error :: "Error option \<Rightarrow> string"
  and ExitError_Error :: "ExitError option \<Rightarrow> string" where
  "error_Error (ErrorString s) = s"
| "error_Error (FmtWrapError s w) = s"
| "error_Error (ErrorPtr p) = Error_Error p"
| "error_Error (ExitErrorPtr p) = ExitError_Error p"
| "Error_Error None = []"
| "Error_Error (Some (MkError c None)) = ''Failed with code '' @ Code_String c"
| "Error_Error (Some (MkError c (Some u))) =
     ''Failed with code '' @ Code_String c @ '': '' @ error_Error u"
| "ExitError_Error None = []"
| "ExitError_Error (Some (MkExitError n None)) = ''Exited with code '' @ Itoa n"
| "ExitError_Error (Some (MkExitError n (Some u))) =
     ''Exited with code '' @ Itoa n @ '': '' @ error_Error u"

text \<open>
  \<^verbatim>\<open>fmt.Errorf(prefix + "%w", operand)\<close>: the message is the prefix followed by the operand's
  message, or by \<^verbatim>\<open>%!w(<nil>)\<close> for a nil operand; the result unwraps to the operand.
\<close>

definition Errorf_w :: "string \<Rightarrow> error option \<Rightarrow> error" where
  "Errorf_w prefix operand =
     FmtWrapError
       (prefix @ (case operand of None \<Rightarrow> ''%!w(<nil>)'' | Some e \<Rightarrow> error_Error e))
       operand"

text \<open>
  \<^verbatim>\<open>errors.As(err, &target)\<close> for a target of type \<^verbatim>\<open>*Error\<close>: walk the \<^verbatim>\<open>Unwrap\<close> chain and
  stop at the first \<^verbatim>\<open>*Error\<close>. The result is \<open>None\<close> when there is none, and \<open>Some p\<close>
  with the pointer found (which may be the nil pointer).
\<close>

fun errors_As_Error :: "error \<Rightarrow> Error option option" where
  "errors_As_Error (ErrorString s) = None"
| "errors_As_Error (FmtWrapError s None) = None"
| "errors_As_Error (FmtWrapError s (Some e)) = errors_As_Error e"
| "errors_As_Error (ErrorPtr p) = Some p"
| "errors_As_Error (ExitErrorPtr None) = None"
| "errors_As_Error (ExitErrorPtr (Some (MkExitError n None))) = None"
| "errors_As_Error (ExitErrorPtr (Some (MkExitError n (Some e)))) = errors_As_Error e"

text \<open>The same for a target of type \<^verbatim>\<open>*ExitError\<close>.\<close>

fun errors_As_ExitError :: "error \<Rightarrow> ExitError option option" where
  "errors_As_ExitError (ErrorString s) = None"
| "errors_As_ExitError (FmtWrapError s None) = None"
| "errors_As_ExitError (FmtWrapError s (Some e)) = errors_As_ExitError e"
| "errors_As_ExitError (ExitErrorPtr p) = Some p"
| "errors_As_ExitError (ErrorPtr None) = None"
| "errors_As_ExitError (ErrorPtr (Some (MkError c None))) = None"
| "errors_As_ExitError (ErrorPtr (Some (MkError c (Some e)))) = errors_As_ExitError e"

subsection \<open>RPC errors (part\_009)\<close>

definition Error_Code :: "Error option \<Rightarrow> Code" where
  "Error_Code e = (case e of None \<Rightarrow> 0 | Some x \<Rightarrow> Error_code x)"

definition Error_Unwrap :: "Error option \<Rightarrow> error option" where
  "Error_Unwrap e = (case e of None \<Rightarrow> None | Some x \<Rightarrow> Error_underlying x)"

definition newInvalidCodeError :: "Error option \<Rightarrow> Error option" where
  "newInvalidCodeError pluginrpcError =
     Some (MkError CodeInternal
       (Some (Errorf_w (''Error created with code '' @ Code_String (Error_Code pluginrpcError) @ '': '')
          (Error_Unwrap pluginrpcError))))"

definition newNilUnderlyingError :: "Error option \<Rightarrow> Error option" where
  "newNilUnderlyingError pluginrpcError =
     Some (MkError CodeInternal
       (Some (ErrorString (''Error created with code '' @ Code_String (Error_Code pluginrpcError)
          @ '' and nil underlying error''))))"

definition newEmptyUnderlyingError :: "Error option \<Rightarrow> Error option" where
  "newEmptyUnderlyingError pluginrpcError =
     Some (MkError CodeInternal
       (Some (ErrorString (''Error created with code '' @ Code_String (Error_Code pluginrpcError)
          @ '' and empty underlying error''))))"

definition validateError :: "Error option \<Rightarrow> Error option" where
  "validateError pluginrpcError =
     (let code = Error_Code pluginrpcError;
          underlying = Error_Unwrap pluginrpcError
      in if \<not> isValidCode code then newInvalidCodeError pluginrpcError
         else case underlying of
                None \<Rightarrow> newNilUnderlyingError pluginrpcError
              | Some u \<Rightarrow>
                  if error_Error u = [] then newEmptyUnderlyingError pluginrpcError
                  else pluginrpcError)"

definition NewError :: "Code \<Rightarrow> error option \<Rightarrow> Error option" where
  "NewError code underlying = validateError (Some (MkError code underlying))"

definition WrapError :: "error option \<Rightarrow> Error option" where
  "WrapError err =
     (case err of
        None \<Rightarrow> None
      | Some e \<Rightarrow>
          (case errors_As_Error e of
             Some pluginrpcError \<Rightarrow> validateError pluginrpcError
           | None \<Rightarrow> NewError CodeUnknown (Some e)))"

subsection \<open>Exit errors (exit\_error.go)\<close>

definition exitCodeInternal :: int where
  "exitCodeInternal = 1"

definition ExitError_ExitCode :: "ExitError option \<Rightarrow> int" where
  "ExitError_ExitCode e = (case e of None \<Rightarrow> 0 | Some x \<Rightarrow> ExitError_exitCode x)"

definition ExitError_Unwrap :: "ExitError option \<Rightarrow> error option" where
  "ExitError_Unwrap e = (case e of None \<Rightarrow> None | Some x \<Rightarrow> ExitError_underlying x)"

text \<open>
  The operand of \<^verbatim>\<open>%w\<close> is the \<^verbatim>\<open>*ExitError\<close> itself, converted to an interface value: it is
  never the nil interface, also when the pointer is nil.
\<close>

definition newInvalidCodeExitError :: "ExitError option \<Rightarrow> ExitError option" where
  "newInvalidCodeExitError exitError =
     Some (MkExitError exitCodeInternal
       (Some (Errorf_w (''ExitError created with code '' @ Itoa (ExitError_ExitCode exitError) @ '': '')
          (Some (ExitErrorPtr exitError)))))"

definition validateExitError :: "ExitError option \<Rightarrow> ExitError option" where
  "validateExitError exitError =
     (if ExitError_ExitCode exitError = 0 then newInvalidCodeExitError exitError
      else exitError)"

definition NewExitError :: "int \<Rightarrow> error option \<Rightarrow> ExitError option" where
  "NewExitError exitCode underlying = validateExitError (Some (MkExitError exitCode underlying))"

definition WrapExitError :: "error option \<Rightarrow> ExitError option" where
  "WrapExitError err =
     (case err of
        None \<Rightarrow> None
      | Some e \<Rightarrow>
          (case errors_As_ExitError e of
             Some exitError \<Rightarrow> validateExitError exitError
           | None \<Rightarrow> NewExitError exitCodeInternal (Some e)))"

subsection \<open>Protobuf form of an RPC error\<close>

text \<open>
  \<^verbatim>\<open>pluginrpcv1.Error\<close>, the generated message \<^verbatim>\<open>{code, message}\<close>. The enum
  \<^verbatim>\<open>pluginrpcv1.Code\<close> is an \<^verbatim>\<open>int32\<close> with the numbering of \<open>Code\<close>; the conversions
  between the two keep the bits.
\<close>

record protoError =
  protoCode :: "32 word"
  protoMessage :: string

definition Code_CODE_INTERNAL :: "32 word" where
  "Code_CODE_INTERNAL = 13"

definition Code_ToProto :: "Code \<Rightarrow> error + 32 word" where
  "Code_ToProto c =
     (if isValidCode c then Inr c else Inl (ErrorString (''unknown Code: '' @ Code_String c)))"

text \<open>
  A call of a method on a nil interface value panics. \<open>Panics\<close> is that outcome;
  \<open>Returns\<close> carries the result of a call that returns.
\<close>

datatype 'a outcome = Returns 'a | Panics

definition ToProto :: "Error option \<Rightarrow> protoError option outcome" where
  "ToProto e =
     (case e of
        None \<Rightarrow> Returns None
      | Some x \<Rightarrow>
          (let pluginrpcError = validateError e in
           case Code_ToProto (Error_Code pluginrpcError) of
             Inl err \<Rightarrow>
               (case Error_underlying x of
                  None \<Rightarrow> Panics
                | Some u \<Rightarrow>
                    Returns (Some \<lparr>protoCode = Code_CODE_INTERNAL,
                      protoMessage = ''Error created with invalid code: '' @ error_Error u
                        @ '': '' @ error_Error err\<rparr>))
           | Inr c \<Rightarrow>
               (case Error_Unwrap pluginrpcError of
                  None \<Rightarrow> Panics
                | Some u \<Rightarrow> Returns (Some \<lparr>protoCode = c, protoMessage = error_Error u\<rparr>))))"

subsection \<open>Standard-library functions taken as parameters\<close>

text \<open>
  Functions of the Go standard library that the package calls and that are not part of
  the repository: \<^verbatim>\<open>strconv.Quote\<close> (the verb \<^verbatim>\<open>%q\<close>), \<^verbatim>\<open>strings.TrimSpace\<close>,
  \<^verbatim>\<open>strconv.Atoi\<close>, and the last steps of the URL parser of \<^verbatim>\<open>net/url\<close> (\<open>parseTail\<close>: the
  error, if any, of parsing the authority and the path of a raw URL whose part after the
  scheme begins with a slash; the steps before are modelled below). Every function of the
  model that calls one of them takes the record as its first argument.
\<close>

record strlib =
  Quote :: "string \<Rightarrow> string"
  parseTail :: "string \<Rightarrow> error option"
  TrimSpace :: "string \<Rightarrow> string"
  Atoi :: "string \<Rightarrow> error + int"

text \<open>\<^verbatim>\<open>strings.Join\<close>.\<close>

fun Join :: "string list \<Rightarrow> string \<Rightarrow> string" where
  "Join [] sep = []"
| "Join [x] sep = x"
| "Join (x # y # ys) sep = x @ sep @ Join (y # ys) sep"

subsection \<open>Regular expressions (the pattern of \<^verbatim>\<open>argRegexp\<close>)\<close>

text \<open>
  The fragment of \<^verbatim>\<open>regexp\<close> syntax that \<^verbatim>\<open>argRegexp\<close> uses: character classes given by
  ranges, concatenation and the star, matched by Brzozowski derivatives. The pattern is
  anchored by \<^verbatim>\<open>^\<close> and \<^verbatim>\<open>$\<close>, which in Go's default mode are the beginning and the end of
  the text, so \<^verbatim>\<open>MatchString\<close> holds when the whole string matches the body. The classes
  are ASCII ranges, so a byte of a multi-byte rune is in no class and matching bytes is
  matching runes.
\<close>

datatype regexp =
    NoMatch
  | EmptyMatch
  | CharClass "(char \<times> char) list"
  | Concat regexp regexp
  | Alternate regexp regexp
  | Star regexp

definition inClass :: "char \<Rightarrow> (char \<times> char) list \<Rightarrow> bool" where
  "inClass c ranges =
     list_ex (\<lambda>(lo, hi). (of_char lo :: nat) \<le> of_char c \<and> (of_char c :: nat) \<le> of_char hi) ranges"

fun nullable :: "regexp \<Rightarrow> bool" where
  "nullable NoMatch = False"
| "nullable EmptyMatch = True"
| "nullable (CharClass rs) = False"
| "nullable (Concat r s) = (nullable r \<and> nullable s)"
| "nullable (Alternate r s) = (nullable r \<or> nullable s)"
| "nullable (Star r) = True"

fun deriv :: "char \<Rightarrow> regexp \<Rightarrow> regexp" where
  "deriv c NoMatch = NoMatch"
| "deriv c EmptyMatch = NoMatch"
| "deriv c (CharClass rs) = (if inClass c rs then EmptyMatch else NoMatch)"
| "deriv c (Concat r s) =
     (if nullable r then Alternate (Concat (deriv c r) s) (deriv c s)
      else Concat (deriv c r) s)"
| "deriv c (Alternate r s) = Alternate (deriv c r) (deriv c s)"
| "deriv c (Star r) = Concat (deriv c r) (Star r)"

fun MatchString :: "regexp \<Rightarrow> string \<Rightarrow> bool" where
  "MatchString r [] = nullable r"
| "MatchString r (c # cs) = MatchString (deriv c r) cs"

subsection \<open>\<^verbatim>\<open>url.ParseRequestURI\<close> (the Go standard library, \<^verbatim>\<open>net/url\<close>)\<close>

text \<open>
  \<^verbatim>\<open>validateProcedure\<close> accepts a path when \<^verbatim>\<open>url.ParseRequestURI\<close> returns no error. The
  function is not part of the repository; its first steps, which decide whether a path
  has to begin with a slash, are modelled here after the source of \<^verbatim>\<open>net/url\<close>
  (\<^verbatim>\<open>parse(rawURL, viaRequest = true)\<close>), and its last steps are the parameter \<open>parseTail\<close>:
  \<^item> a control byte (below 0x20, or 0x7f) anywhere is an error;
  \<^item> the empty string is an error;
  \<^item> the string \<^verbatim>\<open>*\<close> is accepted;
  \<^item> \<^verbatim>\<open>getScheme\<close> splits off a leading scheme: letters, and after the first byte also
    digits, plus, minus and dot, up to a colon; a colon at the start is an error, and any
    other byte means that there is no scheme;
  \<^item> the query is cut off at the first question mark;
  \<^item> if what is left does not begin with a slash, the URL is accepted when it has a
    scheme (the rest is opaque) and is an error otherwise;
  \<^item> if it does, the authority and the path are parsed (\<open>parseTail\<close>).
  \<^verbatim>\<open>ParseRequestURI\<close> wraps an error in a \<^verbatim>\<open>*url.Error\<close>, which has a message and unwraps to
  the error it wraps, as the result of \<^verbatim>\<open>fmt.Errorf\<close> with \<^verbatim>\<open>%w\<close> does.
\<close>

definition stringContainsCTLByte :: "string \<Rightarrow> bool" where
  "stringContainsCTLByte s = list_ex (\<lambda>b. (of_char b :: nat) < 32 \<or> (of_char b :: nat) = 127) s"

text \<open>
  The loop of \<^verbatim>\<open>getScheme\<close>: \<open>seen\<close> is \<^verbatim>\<open>rawURL[:i]\<close> and the list is \<^verbatim>\<open>rawURL[i:]\<close>. The result
  is the scheme and the rest.
\<close>

fun getScheme_loop :: "string \<Rightarrow> string \<Rightarrow> string \<Rightarrow> error + string \<times> string" where
  "getScheme_loop rawURL seen [] = Inr ([], rawURL)"
| "getScheme_loop rawURL seen (c # cs) =
     (if inClass c [(CHR ''a'', CHR ''z''), (CHR ''A'', CHR ''Z'')] then
        getScheme_loop rawURL (seen @ [c]) cs
      else if inClass c [(CHR ''0'', CHR ''9'')] \<or> c = CHR ''+'' \<or> c = CHR ''-'' \<or> c = CHR ''.'' then
        (if seen = [] then Inr ([], rawURL) else getScheme_loop rawURL (seen @ [c]) cs)
      else if c = CHR '':'' then
        (if seen = [] then Inl (ErrorString ''missing protocol scheme'') else Inr (seen, cs))
      else Inr ([], rawURL))"

definition getScheme :: "string \<Rightarrow> error + string \<times> string" where
  "getScheme rawURL = getScheme_loop rawURL [] rawURL"

definition HasPrefix :: "string \<Rightarrow> string \<Rightarrow> bool" where
  "HasPrefix s pre \<longleftrightarrow> take (length pre) s = pre"

definition HasSuffix :: "string \<Rightarrow> string \<Rightarrow> bool" where
  "HasSuffix s suf \<longleftrightarrow> length suf \<le> length s \<and> drop (length s - length suf) s = suf"

text \<open>
  The part of \<open>rest\<close> before the query: without its last byte when that is the only
  question mark, and otherwise what \<^verbatim>\<open>strings.Cut(rest, "?")\<close> returns first.
\<close>

definition beforeQuery :: "string \<Rightarrow> string" where
  "beforeQuery rest =
     (if HasSuffix rest ''?'' \<and> count_list rest (CHR ''?'') = 1 then butlast rest
      else takeWhile (\<lambda>c. c \<noteq> CHR ''?'') rest)"

definition url_parse :: "strlib \<Rightarrow> string \<Rightarrow> error option" where
  "url_parse L rawURL =
     (if stringContainsCTLByte rawURL then
        Some (ErrorString ''net/url: invalid control character in URL'')
      else if rawURL = [] then Some (ErrorString ''empty url'')
      else if rawURL = ''*'' then None
      else case getScheme rawURL of
        Inl err \<Rightarrow> Some err
      | Inr (scheme, rest) \<Rightarrow>
          (if \<not> HasPrefix (beforeQuery rest) ''/'' then
             (if scheme \<noteq> [] then None else Some (ErrorString ''invalid URI for request''))
           else parseTail L rawURL))"

definition ParseRequestURI :: "strlib \<Rightarrow> string \<Rightarrow> error option" where
  "ParseRequestURI L rawURL =
     (case url_parse L rawURL of
        None \<Rightarrow> None
      | Some err \<Rightarrow>
          Some (FmtWrapError (''parse '' @ Quote L rawURL @ '': '' @ error_Error err) (Some err)))"

subsection \<open>Procedures (procedure.go)\<close>

definition minProcedureArgLength :: nat where
  "minProcedureArgLength = 2"

text \<open>The body of \<^verbatim>\<open>^[a-zA-Z0-9][a-zA-Z0-9_-]*[a-zA-Z0-9]$\<close>.\<close>

definition argRegexp :: regexp where
  "argRegexp =
     Concat (CharClass [(CHR ''a'', CHR ''z''), (CHR ''A'', CHR ''Z''), (CHR ''0'', CHR ''9'')])
       (Concat
         (Star (CharClass [(CHR ''a'', CHR ''z''), (CHR ''A'', CHR ''Z''), (CHR ''0'', CHR ''9''),
            (CHR ''_'', CHR ''_''), (CHR ''-'', CHR ''-'')]))
         (CharClass [(CHR ''a'', CHR ''z''), (CHR ''A'', CHR ''Z''), (CHR ''0'', CHR ''9'')]))"

text \<open>
  The struct \<^verbatim>\<open>procedure\<close>. A value of the interface \<^verbatim>\<open>Procedure\<close> is a non-nil pointer to
  one; the struct is never mutated after construction, so the pointer is the record.
\<close>

record procedure =
  path :: string
  args :: "string list"

definition Procedure_Path :: "procedure \<Rightarrow> string" where
  "Procedure_Path p = path p"

text \<open>\<^verbatim>\<open>Args\<close> returns a clone of the slice: the same elements.\<close>

definition Procedure_Args :: "procedure \<Rightarrow> string list" where
  "Procedure_Args p = args p"

record procedureOptions =
  optArgs :: "string list"

type_synonym ProcedureOption = "procedureOptions \<Rightarrow> procedureOptions"

definition newProcedureOptions :: procedureOptions where
  "newProcedureOptions = \<lparr>optArgs = []\<rparr>"

definition ProcedureWithArgs :: "string list \<Rightarrow> ProcedureOption" where
  "ProcedureWithArgs as = (\<lambda>procedureOptions. procedureOptions\<lparr>optArgs := as\<rparr>)"

text \<open>The loop of \<^verbatim>\<open>validateProcedure\<close> over the args, returning at the first bad arg.\<close>

fun validateProcedure_args :: "strlib \<Rightarrow> string \<Rightarrow> string list \<Rightarrow> error option" where
  "validateProcedure_args L pth [] = None"
| "validateProcedure_args L pth (arg # rest) =
     (if length arg < minProcedureArgLength then
        Some (ErrorString (''arg '' @ Quote L arg @ '' for procedure '' @ Quote L pth
          @ '' must be at least length '' @ Itoa (int minProcedureArgLength)))
      else if \<not> MatchString argRegexp arg then
        Some (ErrorString (''arg '' @ Quote L arg @ '' for procedure '' @ Quote L pth
          @ '' must only consist of characters [a-zA-Z0-9-_] and cannot start or end with a dash or underscore''))
      else validateProcedure_args L pth rest)"

definition validateProcedure :: "strlib \<Rightarrow> procedure \<Rightarrow> error option" where
  "validateProcedure L p =
     (if path p = [] then Some (ErrorString ''procedure path is empty'')
      else case ParseRequestURI L (path p) of
             Some err \<Rightarrow> Some (Errorf_w ''invalid procedure path: '' (Some err))
           | None \<Rightarrow> validateProcedure_args L (path p) (args p))"

definition newProcedure :: "strlib \<Rightarrow> string \<Rightarrow> ProcedureOption list \<Rightarrow> error + procedure" where
  "newProcedure L pth options =
     (let procedureOptions = fold (\<lambda>option acc. option acc) options newProcedureOptions;
          p = \<lparr>path = pth, args = optArgs procedureOptions\<rparr>
      in case validateProcedure L p of Some err \<Rightarrow> Inl err | None \<Rightarrow> Inr p)"


text \<open>\<^verbatim>\<open>pluginrpcv1.Procedure\<close>, the generated message \<^verbatim>\<open>{path, args}\<close>.\<close>

record protoProcedure =
  protoPath :: string
  protoArgs :: "string list"

definition NewProcedureForProto :: "strlib \<Rightarrow> protoProcedure \<Rightarrow> error + procedure" where
  "NewProcedureForProto L pp = newProcedure L (protoPath pp) [ProcedureWithArgs (protoArgs pp)]"

definition NewProtoProcedure :: "procedure \<Rightarrow> protoProcedure" where
  "NewProtoProcedure p = \<lparr>protoPath = Procedure_Path p, protoArgs = Procedure_Args p\<rparr>"

text \<open>
  The loop of \<^verbatim>\<open>validateProcedures\<close>; the two maps to \<^verbatim>\<open>struct{}\<close> are sets of strings.
\<close>

fun validateProcedures_loop ::
  "strlib \<Rightarrow> string set \<Rightarrow> string set \<Rightarrow> procedure list \<Rightarrow> error option" where
  "validateProcedures_loop L usedPathMap usedArgsMap [] = None"
| "validateProcedures_loop L usedPathMap usedArgsMap (p # rest) =
     (let pth = Procedure_Path p in
      if pth \<in> usedPathMap then
        Some (ErrorString (''duplicate procedure path: '' @ Quote L pth))
      else
        let usedPathMap' = insert pth usedPathMap;
            as = Procedure_Args p
        in if length as > 0 then
             (let joinedArgs = Join as '' '' in
              if joinedArgs \<in> usedArgsMap then
                Some (ErrorString (''duplicate procedure args: '' @ Quote L joinedArgs))
              else validateProcedures_loop L usedPathMap' (insert joinedArgs usedArgsMap) rest)
           else validateProcedures_loop L usedPathMap' usedArgsMap rest)"

definition validateProcedures :: "strlib \<Rightarrow> procedure list \<Rightarrow> error option" where
  "validateProcedures L procs = validateProcedures_loop L {} {} procs"

subsection \<open>Specs (part\_002, the version of spec.go that spec\_test.go exercises)\<close>

text \<open>
  The struct \<^verbatim>\<open>spec\<close>: the procedures and the index from path to procedure. A value of
  the interface \<^verbatim>\<open>Spec\<close> is \<open>Some s\<close>, and \<open>None\<close> is the nil interface.
\<close>

record spec =
  procedures :: "procedure list"
  pathToProcedure :: "string \<rightharpoonup> procedure"

definition newSpec :: "strlib \<Rightarrow> procedure list \<Rightarrow> error + spec" where
  "newSpec L procs =
     (if length procs = 0 then Inl (ErrorString ''no procedures specified'')
      else case validateProcedures L procs of
             Some err \<Rightarrow> Inl err
           | None \<Rightarrow>
               Inr \<lparr>procedures = procs,
                    pathToProcedure =
                      fold (\<lambda>p m. m(Procedure_Path p \<mapsto> p)) procs Map.empty\<rparr>)"

definition NewSpec :: "strlib \<Rightarrow> procedure list \<Rightarrow> error + spec" where
  "NewSpec L procs = newSpec L procs"

definition ProcedureForPath :: "spec \<Rightarrow> string \<Rightarrow> procedure option" where
  "ProcedureForPath s pth = pathToProcedure s pth"

definition Procedures :: "spec \<Rightarrow> procedure list" where
  "Procedures s = procedures s"

text \<open>The loop of \<^verbatim>\<open>NewSpecForProto\<close>, returning at the first invalid procedure.\<close>

fun NewSpecForProto_loop :: "strlib \<Rightarrow> protoProcedure list \<Rightarrow> error + procedure list" where
  "NewSpecForProto_loop L [] = Inr []"
| "NewSpecForProto_loop L (pp # rest) =
     (case NewProcedureForProto L pp of
        Inl err \<Rightarrow> Inl err
      | Inr p \<Rightarrow>
          (case NewSpecForProto_loop L rest of
             Inl err \<Rightarrow> Inl err
           | Inr ps \<Rightarrow> Inr (p # ps)))"

definition NewSpecForProto :: "strlib \<Rightarrow> protoProcedure list \<Rightarrow> error + spec" where
  "NewSpecForProto L protoSpec =
     (case NewSpecForProto_loop L protoSpec of
        Inl err \<Rightarrow> Inl err
      | Inr procs \<Rightarrow> NewSpec L procs)"

definition NewProtoSpec :: "spec \<Rightarrow> protoProcedure list" where
  "NewProtoSpec s = map NewProtoProcedure (Procedures s)"

text \<open>\<^verbatim>\<open>MergeSpecs\<close>: the loop skips nil and appends the procedures of every other spec.\<close>

definition MergeSpecs :: "strlib \<Rightarrow> spec option list \<Rightarrow> error + spec" where
  "MergeSpecs L specs =
     NewSpec L
       (foldl (\<lambda>acc s. case s of None \<Rightarrow> acc | Some sp \<Rightarrow> acc @ Procedures sp) [] specs)"

text \<open>
  The version of \<^verbatim>\<open>newSpec\<close> in src/spec.go, an earlier state of the same file (it takes
  the slice itself, has no \<^verbatim>\<open>MergeSpecs\<close> and calls its own copy of the duplicate check,
  \<^verbatim>\<open>validateSpecProcedures\<close>, whose body is that of \<^verbatim>\<open>validateProcedures\<close>): it has no check
  for an empty slice.
\<close>

definition validateSpecProcedures :: "strlib \<Rightarrow> procedure list \<Rightarrow> error option" where
  "validateSpecProcedures L procs = validateProcedures_loop L {} {} procs"

definition newSpec_spec_go :: "strlib \<Rightarrow> procedure list \<Rightarrow> error + spec" where
  "newSpec_spec_go L procs =
     (case validateSpecProcedures L procs of
        Some err \<Rightarrow> Inl err
      | None \<Rightarrow>
          Inr \<lparr>procedures = procs,
               pathToProcedure =
                 fold (\<lambda>p m. m(Procedure_Path p \<mapsto> p)) procs Map.empty\<rparr>)"

subsection \<open>Formats (the file of \<^verbatim>\<open>Format\<close>)\<close>

text \<open>\<^verbatim>\<open>type Format uint32\<close>.\<close>

type_synonym Format = "32 word"

definition FormatBinary :: Format where "FormatBinary = 1"
definition FormatJSON :: Format where "FormatJSON = 2"
definition minFormat :: Format where "minFormat = FormatBinary"
definition maxFormat :: Format where "maxFormat = FormatJSON"
definition formatBinaryString :: string where "formatBinaryString = ''binary''"
definition formatJSONString :: string where "formatJSONString = ''json''"

definition Format_String :: "Format \<Rightarrow> string" where
  "Format_String f =
     (if f = FormatBinary then formatBinaryString
      else if f = FormatJSON then formatJSONString
      else ''format_'' @ formatNat (unat f))"

definition isValidFormat :: "Format \<Rightarrow> bool" where
  "isValidFormat f \<longleftrightarrow> minFormat \<le> f \<and> f \<le> maxFormat"

definition validateFormat :: "Format \<Rightarrow> error option" where
  "validateFormat f =
     (if \<not> isValidFormat f then Some (ErrorString (''unknown Format: '' @ Format_String f))
      else None)"

text \<open>The names of the flags and the protocol version (part\_000).\<close>

definition ProtocolFlagName :: string where "ProtocolFlagName = ''protocol''"
definition SpecFlagName :: string where "SpecFlagName = ''spec''"
definition FormatFlagName :: string where "FormatFlagName = ''format''"
definition protocolVersion :: int where "protocolVersion = 1"

subsection \<open>The protobuf library, taken as a parameter\<close>

text \<open>
  Byte slices are strings. \<open>'m\<close> is the type of the user's messages and \<open>'a\<close> the type
  of \<^verbatim>\<open>anypb.Any\<close>. The envelopes \<^verbatim>\<open>pluginrpcv1.Request\<close> and \<^verbatim>\<open>pluginrpcv1.Response\<close> are
  records; \<^verbatim>\<open>pluginrpcv1.Spec\<close> is its list of procedures.
\<close>

type_synonym bytes = string

record 'a protoRequest =
  requestValue :: "'a option"

record 'a protoResponse =
  responseValue :: "'a option"
  responseError :: "protoError option"

text \<open>The two codecs of codec.go.\<close>

datatype codec = binaryCodec | jsonCodec

text \<open>
  What the package calls in \<^verbatim>\<open>google.golang.org/protobuf\<close> and in the generated package
  \<^verbatim>\<open>pluginrpcv1\<close>: the \<^verbatim>\<open>Marshal\<close> and \<^verbatim>\<open>Unmarshal\<close> of a codec at each envelope type
  (unmarshalling returns the message it filled), \<^verbatim>\<open>anypb.New\<close>, \<^verbatim>\<open>anypb.UnmarshalTo\<close> (its
  error and the destination message after the call) and the \<^verbatim>\<open>String\<close> method of the enum
  \<^verbatim>\<open>pluginrpcv1.Code\<close>.
\<close>

record ('m, 'a) protolib =
  Marshal_Request :: "codec \<Rightarrow> 'a protoRequest \<Rightarrow> error + bytes"
  Unmarshal_Request :: "codec \<Rightarrow> bytes \<Rightarrow> error + 'a protoRequest"
  Marshal_Response :: "codec \<Rightarrow> 'a protoResponse \<Rightarrow> error + bytes"
  Unmarshal_Response :: "codec \<Rightarrow> bytes \<Rightarrow> error + 'a protoResponse"
  Marshal_Spec :: "codec \<Rightarrow> protoProcedure list \<Rightarrow> error + bytes"
  Unmarshal_Spec :: "codec \<Rightarrow> bytes \<Rightarrow> error + protoProcedure list"
  anypb_New :: "'m option \<Rightarrow> error + 'a"
  anypb_UnmarshalTo :: "'a \<Rightarrow> 'm option \<Rightarrow> error option \<times> 'm option"
  protoCode_String :: "32 word \<Rightarrow> string"

definition codecForFormat :: "Format \<Rightarrow> error + codec" where
  "codecForFormat f =
     (if f = FormatBinary then Inr binaryCodec
      else if f = FormatJSON then Inr jsonCodec
      else Inl (ErrorString (''unknown Format: '' @ Format_String f)))"

text \<open>
  A value of type \<^verbatim>\<open>any\<close> passed as request or response: nil, a pointer to a message
  (the message it points to), or a value that is no \<^verbatim>\<open>proto.Message\<close> (with its \<^verbatim>\<open>%T\<close>).
\<close>

datatype 'm anyval = AnyNil | AnyMessage 'm | AnyOther string

definition toProtoMessage :: "'m anyval \<Rightarrow> error + 'm option" where
  "toProtoMessage v =
     (case v of
        AnyNil \<Rightarrow> Inr None
      | AnyMessage m \<Rightarrow> Inr (Some m)
      | AnyOther t \<Rightarrow> Inl (ErrorString (''expected proto.Message, got '' @ t)))"

text \<open>
  The message behind a pointer after \<^verbatim>\<open>anypb.UnmarshalTo\<close> has written to it: the caller's
  value is the same pointer.
\<close>

definition stored :: "'m anyval \<Rightarrow> 'm option \<Rightarrow> 'm anyval" where
  "stored v m = (case v of AnyMessage old \<Rightarrow> (case m of Some new \<Rightarrow> AnyMessage new | None \<Rightarrow> v) | _ \<Rightarrow> v)"

subsection \<open>Codes and errors from their protobuf form\<close>

definition CodeForProto :: "('m, 'a) protolib \<Rightarrow> 32 word \<Rightarrow> error + Code" where
  "CodeForProto P c =
     (if isValidCode c then Inr c
      else Inl (ErrorString (''unknown pluginrpcv1.Code: '' @ protoCode_String P c)))"

definition NewErrorForProto :: "('m, 'a) protolib \<Rightarrow> protoError option \<Rightarrow> Error option" where
  "NewErrorForProto P pe =
     (case pe of
        None \<Rightarrow> None
      | Some x \<Rightarrow>
          (case CodeForProto P (protoCode x) of
             Inl err \<Rightarrow>
               NewError CodeInternal
                 (Some (Errorf_w (''Error created with invalid code: '' @ protoMessage x @ '': '')
                    (Some err)))
           | Inr code \<Rightarrow> NewError code (Some (ErrorString (protoMessage x)))))"

subsection \<open>Wire framing (wire.go)\<close>

definition marshalRequest :: "('m, 'a) protolib \<Rightarrow> Format \<Rightarrow> 'm anyval \<Rightarrow> error + bytes" where
  "marshalRequest P f v =
     (if v = AnyNil then Inr []
      else case toProtoMessage v of
        Inl err \<Rightarrow> Inl err
      | Inr protoRequestValue \<Rightarrow>
          (case anypb_New P protoRequestValue of
             Inl err \<Rightarrow> Inl err
           | Inr anyRequestValue \<Rightarrow>
               (case codecForFormat f of
                  Inl err \<Rightarrow> Inl err
                | Inr c \<Rightarrow> Marshal_Request P c \<lparr>requestValue = Some anyRequestValue\<rparr>)))"

text \<open>The result is the error and the request value after the call.\<close>

definition unmarshalRequest ::
  "('m, 'a) protolib \<Rightarrow> Format \<Rightarrow> bytes \<Rightarrow> 'm anyval \<Rightarrow> error option \<times> 'm anyval" where
  "unmarshalRequest P f data v =
     (if length data = 0 then (None, v)
      else case codecForFormat f of
        Inl err \<Rightarrow> (Some err, v)
      | Inr c \<Rightarrow>
          (case Unmarshal_Request P c data of
             Inl err \<Rightarrow> (Some err, v)
           | Inr protoRequest \<Rightarrow>
               (case requestValue protoRequest of
                  None \<Rightarrow> (None, v)
                | Some anyRequestValue \<Rightarrow>
                    (case toProtoMessage v of
                       Inl err \<Rightarrow> (Some err, v)
                     | Inr protoRequestValue \<Rightarrow>
                         (case anypb_UnmarshalTo P anyRequestValue protoRequestValue of
                            (err, m) \<Rightarrow> (err, stored v m))))))"

text \<open>
  \<^verbatim>\<open>marshalResponse\<close>, in two parts. \<open>marshalResponse_envelope\<close> is its second half, from
  the construction of the envelope on: it calls \<^verbatim>\<open>WrapError(err).ToProto()\<close>, so its
  outcome is that of \<open>ToProto\<close>, then picks the codec and marshals. \<open>marshalResponse\<close>
  converts the response value first and returns at a failure of that conversion.
\<close>

definition marshalResponse_envelope ::
  "('m, 'a) protolib \<Rightarrow> Format \<Rightarrow> 'a option \<Rightarrow> error option \<Rightarrow> (error + bytes) outcome" where
  "marshalResponse_envelope P f anyResponseValue err =
     (case ToProto (WrapError err) of
        Panics \<Rightarrow> Panics
      | Returns pe \<Rightarrow>
          Returns (case codecForFormat f of
             Inl e \<Rightarrow> Inl e
           | Inr c \<Rightarrow>
               Marshal_Response P c \<lparr>responseValue = anyResponseValue, responseError = pe\<rparr>))"

definition marshalResponse ::
  "('m, 'a) protolib \<Rightarrow> Format \<Rightarrow> 'm anyval \<Rightarrow> error option \<Rightarrow> (error + bytes) outcome" where
  "marshalResponse P f v err =
     (if v \<noteq> AnyNil then
        (case toProtoMessage v of
           Inl e \<Rightarrow> Returns (Inl e)
         | Inr protoResponseValue \<Rightarrow>
             (case anypb_New P protoResponseValue of
                Inl e \<Rightarrow> Returns (Inl e)
              | Inr anyResponseValue \<Rightarrow>
                  marshalResponse_envelope P f (Some anyResponseValue) err))
      else marshalResponse_envelope P f None err)"

text \<open>
  The tail of \<^verbatim>\<open>unmarshalResponse\<close>, after the payload: the error of the envelope, if any,
  as an \<^verbatim>\<open>*Error\<close> returned through the interface \<^verbatim>\<open>error\<close>.
\<close>

definition unmarshalResponse_error ::
  "('m, 'a) protolib \<Rightarrow> 'a protoResponse \<Rightarrow> error option" where
  "unmarshalResponse_error P protoResponse =
     (case responseError protoResponse of
        Some protoError \<Rightarrow> Some (ErrorPtr (NewErrorForProto P (Some protoError)))
      | None \<Rightarrow> None)"

text \<open>The result is the error and the response value after the call.\<close>

definition unmarshalResponse ::
  "('m, 'a) protolib \<Rightarrow> Format \<Rightarrow> bytes \<Rightarrow> 'm anyval \<Rightarrow> error option \<times> 'm anyval" where
  "unmarshalResponse P f data v =
     (if length data = 0 then (None, v)
      else case codecForFormat f of
        Inl err \<Rightarrow> (Some err, v)
      | Inr c \<Rightarrow>
          (case Unmarshal_Response P c data of
             Inl err \<Rightarrow> (Some err, v)
           | Inr protoResponse \<Rightarrow>
               (case responseValue protoResponse of
                  Some anyResponseValue \<Rightarrow>
                    (case toProtoMessage v of
                       Inl err \<Rightarrow> (Some err, v)
                     | Inr protoResponseValue \<Rightarrow>
                         (case anypb_UnmarshalTo P anyResponseValue protoResponseValue of
                            (Some err, m) \<Rightarrow> (Some err, stored v m)
                          | (None, m) \<Rightarrow>
                              (unmarshalResponse_error P protoResponse, stored v m)))
                | None \<Rightarrow> (unmarshalResponse_error P protoResponse, v))))"

definition unmarshalSpec :: "('m, 'a) protolib \<Rightarrow> Format \<Rightarrow> bytes \<Rightarrow> error + protoProcedure list" where
  "unmarshalSpec P f data =
     (if length data = 0 then Inr []
      else case codecForFormat f of
        Inl err \<Rightarrow> Inl err
      | Inr c \<Rightarrow> Unmarshal_Spec P c data)"

definition unmarshalProtocol :: "strlib \<Rightarrow> bytes \<Rightarrow> error + int" where
  "unmarshalProtocol L data =
     (let dataString = TrimSpace L data in
      case Atoi L dataString of
        Inl err \<Rightarrow> Inl (ErrorString (''invalid protocol: '' @ Quote L dataString))
      | Inr v \<Rightarrow> Inr v)"

subsection \<open>Handler (part\_007)\<close>

text \<open>
  The standard input of a handler: whether it is an \<^verbatim>\<open>*os.File\<close> that is a terminal, and
  what \<^verbatim>\<open>io.ReadAll\<close> returns on it.
\<close>

record Reader =
  isTerminal :: bool
  content :: bytes
  readErr :: "error option"

definition readStdin :: "Reader \<Rightarrow> bytes \<times> error option" where
  "readStdin stdin = (if isTerminal stdin then ([], None) else (content stdin, readErr stdin))"

text \<open>
  An \<^verbatim>\<open>io.Writer\<close>: its state and its \<^verbatim>\<open>Write\<close>, which returns the error and the new
  state. The writers of an environment are not nil.
\<close>

record 'o Writer =
  sink :: 'o
  writeTo :: "bytes \<Rightarrow> 'o \<Rightarrow> error option \<times> 'o"

definition Writer_Write :: "'o Writer \<Rightarrow> bytes \<Rightarrow> error option \<times> 'o Writer" where
  "Writer_Write w data = (case writeTo w data (sink w) of (err, st) \<Rightarrow> (err, w\<lparr>sink := st\<rparr>))"

text \<open>\<^verbatim>\<open>HandleEnv\<close>; \<^verbatim>\<open>Handle\<close> does not use \<^verbatim>\<open>Stderr\<close>.\<close>

record 'o HandleEnv =
  Stdin :: Reader
  Stdout :: "'o Writer"

record handleOptions =
  handleFormat :: Format

type_synonym HandleOption = "handleOptions \<Rightarrow> handleOptions"

definition newHandleOptions :: handleOptions where
  "newHandleOptions = \<lparr>handleFormat = FormatBinary\<rparr>"

definition HandleWithFormat :: "Format \<Rightarrow> HandleOption" where
  "HandleWithFormat f = (\<lambda>handleOptions. handleOptions\<lparr>handleFormat := f\<rparr>)"

text \<open>
  \<^verbatim>\<open>writeError\<close>, on the standard output as it is when the deferred function runs: the
  error it returns and the standard output afterwards.
\<close>

definition writeError ::
  "('m, 'a) protolib \<Rightarrow> Format \<Rightarrow> 'o Writer \<Rightarrow> error option
     \<Rightarrow> (error option \<times> 'o Writer) outcome" where
  "writeError P f out inputErr =
     (case inputErr of
        None \<Rightarrow> Returns (None, out)
      | Some e \<Rightarrow>
          (case marshalResponse P f AnyNil inputErr of
             Panics \<Rightarrow> Panics
           | Returns (Inl err) \<Rightarrow> Returns (Some err, out)
           | Returns (Inr data) \<Rightarrow>
               (case Writer_Write out data of
                  (Some err, out') \<Rightarrow>
                    Returns (Some (Errorf_w ''failed to write error to stdout: '' (Some err)), out')
                | (None, out') \<Rightarrow> Returns (None, out'))))"

text \<open>
  The body of \<^verbatim>\<open>Handle\<close> after the deferred function is installed: the value of \<^verbatim>\<open>retErr\<close>
  at the return statement and the standard output at that point. The user's function
  \<open>handle\<close> receives the request after unmarshalling and returns a response and an
  error.
\<close>

definition Handle_body ::
  "('m, 'a) protolib \<Rightarrow> Format \<Rightarrow> 'o HandleEnv \<Rightarrow> 'm anyval
     \<Rightarrow> ('m anyval \<Rightarrow> 'm anyval \<times> error option) \<Rightarrow> (error option \<times> 'o Writer) outcome" where
  "Handle_body P f handleEnv request handle =
     (case readStdin (Stdin handleEnv) of
        (data, Some err) \<Rightarrow> Returns (Some err, Stdout handleEnv)
      | (data, None) \<Rightarrow>
          (case unmarshalRequest P f data request of
             (Some err, request') \<Rightarrow> Returns (Some err, Stdout handleEnv)
           | (None, request') \<Rightarrow>
               (case handle request' of
                  (response, Some err) \<Rightarrow> Returns (Some err, Stdout handleEnv)
                | (response, None) \<Rightarrow>
                    (case marshalResponse P f response None of
                       Panics \<Rightarrow> Panics
                     | Returns (Inl err) \<Rightarrow> Returns (Some err, Stdout handleEnv)
                     | Returns (Inr data') \<Rightarrow>
                         (case Writer_Write (Stdout handleEnv) data' of
                            (Some err, out') \<Rightarrow>
                              Returns (Some (Errorf_w ''failed to write response to stdout: ''
                                (Some err)), out')
                          | (None, out') \<Rightarrow> Returns (None, out'))))))"

text \<open>
  \<^verbatim>\<open>Handle\<close>: an invalid format returns before the deferred function exists; otherwise
  the deferred function replaces a non-nil \<^verbatim>\<open>retErr\<close> by the result of \<^verbatim>\<open>writeError\<close>. The
  result is the error returned and the standard output afterwards.
\<close>

definition Handle ::
  "('m, 'a) protolib \<Rightarrow> 'o HandleEnv \<Rightarrow> 'm anyval
     \<Rightarrow> ('m anyval \<Rightarrow> 'm anyval \<times> error option) \<Rightarrow> HandleOption list
     \<Rightarrow> (error option \<times> 'o Writer) outcome" where
  "Handle P handleEnv request handle options =
     (let handleOptions = fold (\<lambda>option acc. option acc) options newHandleOptions in
      case validateFormat (handleFormat handleOptions) of
        Some err \<Rightarrow> Returns (Some err, Stdout handleEnv)
      | None \<Rightarrow>
          (case Handle_body P (handleFormat handleOptions) handleEnv request handle of
             Panics \<Rightarrow> Panics
           | Returns (retErr, out) \<Rightarrow>
               (if retErr \<noteq> None then writeError P (handleFormat handleOptions) out retErr
                else Returns (retErr, out))))"

subsection \<open>Client (client.go)\<close>

text \<open>
  The environment given to a runner: the args and the standard input (nil or the bytes
  to read). A runner returns its error and what it wrote to the standard output of the
  environment, and may change a state of its own; the writer for the standard error
  is not modelled.
\<close>

record Env =
  Args :: "string list"
  EnvStdin :: "bytes option"

type_synonym 'w Runner = "Env \<Rightarrow> 'w \<Rightarrow> (error option \<times> bytes) \<times> 'w"

text \<open>The struct \<^verbatim>\<open>client\<close>, without its lock.\<close>

record 'w client =
  clientRunner :: "'w Runner"
  clientFormat :: Format
  clientSpec :: "spec option"
  clientSpecErr :: "error option"

record clientOptions =
  optFormat :: Format

type_synonym ClientOption = "clientOptions \<Rightarrow> clientOptions"

definition newClientOptions :: clientOptions where
  "newClientOptions = \<lparr>optFormat = 0\<rparr>"

definition ClientWithFormat :: "Format \<Rightarrow> ClientOption" where
  "ClientWithFormat f = (\<lambda>clientOptions. clientOptions\<lparr>optFormat := f\<rparr>)"

definition newClient :: "'w Runner \<Rightarrow> ClientOption list \<Rightarrow> 'w client" where
  "newClient runner options =
     (let clientOptions = fold (\<lambda>option acc. option acc) options newClientOptions;
          f = (if optFormat clientOptions = 0 then FormatBinary else optFormat clientOptions)
      in \<lparr>clientRunner = runner, clientFormat = f, clientSpec = None, clientSpecErr = None\<rparr>)"

definition getProtocolVersionUncached ::
  "strlib \<Rightarrow> 'w client \<Rightarrow> 'w \<Rightarrow> (error + int) \<times> 'w" where
  "getProtocolVersionUncached L c w =
     (case clientRunner c \<lparr>Args = [''--'' @ ProtocolFlagName], EnvStdin = None\<rparr> w of
        ((Some err, data), w') \<Rightarrow> (Inl err, w')
      | ((None, data), w') \<Rightarrow>
          (if length data = 0 then
             (Inl (ErrorString (''--'' @ ProtocolFlagName @ '' did not return a protocol version'')), w')
           else case unmarshalProtocol L data of
             Inl err \<Rightarrow>
               (Inl (Errorf_w (''--'' @ ProtocolFlagName
                  @ '' did not return a properly-formed protocol version: '') (Some err)), w')
           | Inr version \<Rightarrow> (Inr version, w')))"

definition checkProtocolVersion :: "strlib \<Rightarrow> 'w client \<Rightarrow> 'w \<Rightarrow> error option \<times> 'w" where
  "checkProtocolVersion L c w =
     (case getProtocolVersionUncached L c w of
        (Inl err, w') \<Rightarrow> (Some err, w')
      | (Inr version, w') \<Rightarrow>
          (if version \<noteq> protocolVersion then
             (Some (ErrorString (''--'' @ ProtocolFlagName
                @ '' returned unknown protocol version '' @ Itoa version)), w')
           else (None, w')))"

definition getSpecUncached ::
  "('m, 'a) protolib \<Rightarrow> strlib \<Rightarrow> 'w client \<Rightarrow> 'w \<Rightarrow> (error + spec) \<times> 'w" where
  "getSpecUncached P L c w =
     (case checkProtocolVersion L c w of
        (Some err, w1) \<Rightarrow> (Inl err, w1)
      | (None, w1) \<Rightarrow>
          (case clientRunner c
                  \<lparr>Args = [''--'' @ SpecFlagName, ''--'' @ FormatFlagName,
                      Format_String (clientFormat c)],
                   EnvStdin = None\<rparr> w1 of
             ((Some err, data), w2) \<Rightarrow> (Inl err, w2)
           | ((None, data), w2) \<Rightarrow>
               (if length data = 0 then
                  (Inl (ErrorString (''--'' @ SpecFlagName @ '' did not return a spec'')), w2)
                else case unmarshalSpec P (clientFormat c) data of
                  Inl err \<Rightarrow>
                    (Inl (Errorf_w (''--'' @ SpecFlagName
                       @ '' did not return a properly-formed spec: '') (Some err)), w2)
                | Inr protoSpec \<Rightarrow> (NewSpecForProto L protoSpec, w2))))"

text \<open>
  \<^verbatim>\<open>Spec\<close>: the cached pair if one of its components is set, and otherwise the result of
  the handshake, which is stored. The result is the pair returned, the client and the
  runner's state afterwards. Where the Go code stores a nil \<^verbatim>\<open>*spec\<close> converted to \<^verbatim>\<open>Spec\<close>
  next to a non-nil error, the model stores \<open>None\<close>: the error alone makes the cache
  test succeed, and \<^verbatim>\<open>Call\<close> looks at the error first.
\<close>

definition Client_Spec ::
  "('m, 'a) protolib \<Rightarrow> strlib \<Rightarrow> 'w client \<Rightarrow> 'w
     \<Rightarrow> (spec option \<times> error option) \<times> 'w client \<times> 'w" where
  "Client_Spec P L c w =
     (if clientSpec c \<noteq> None \<or> clientSpecErr c \<noteq> None then
        ((clientSpec c, clientSpecErr c), c, w)
      else case getSpecUncached P L c w of
        (Inl err, w') \<Rightarrow> ((None, Some err), c\<lparr>clientSpec := None, clientSpecErr := Some err\<rparr>, w')
      | (Inr s, w') \<Rightarrow> ((Some s, None), c\<lparr>clientSpec := Some s, clientSpecErr := None\<rparr>, w'))"

text \<open>
  \<^verbatim>\<open>Call\<close>. The result is the error returned, the response value, the client and the
  runner's state afterwards. A nil spec returned without an error would be dereferenced.
\<close>

definition Call ::
  "('m, 'a) protolib \<Rightarrow> strlib \<Rightarrow> 'w client \<Rightarrow> string \<Rightarrow> 'm anyval \<Rightarrow> 'm anyval \<Rightarrow> 'w
     \<Rightarrow> (error option \<times> 'm anyval \<times> 'w client \<times> 'w) outcome" where
  "Call P L c procedurePath request response w =
     (case validateFormat (clientFormat c) of
        Some err \<Rightarrow> Returns (Some err, response, c, w)
      | None \<Rightarrow>
          (case Client_Spec P L c w of
             ((sp, Some err), c1, w1) \<Rightarrow> Returns (Some err, response, c1, w1)
           | ((None, None), c1, w1) \<Rightarrow> Panics
           | ((Some s, None), c1, w1) \<Rightarrow>
               (case ProcedureForPath s procedurePath of
                  None \<Rightarrow>
                    Returns (Some (ErrorString (''no procedure for path '' @ Quote L procedurePath)),
                      response, c1, w1)
                | Some p \<Rightarrow>
                    (case marshalRequest P (clientFormat c) request of
                       Inl err \<Rightarrow> Returns (Some err, response, c1, w1)
                     | Inr data \<Rightarrow>
                         (let args0 = Procedure_Args p;
                              args1 = (if length args0 = 0 then [Procedure_Path p] else args0);
                              args2 = args1 @ [''--'' @ FormatFlagName, Format_String (clientFormat c)]
                          in case clientRunner c \<lparr>Args = args2, EnvStdin = Some data\<rparr> w1 of
                               ((Some err, out), w2) \<Rightarrow>
                                 Returns (Some (ExitErrorPtr (WrapExitError (Some err))), response, c1, w2)
                             | ((None, out), w2) \<Rightarrow>
                                 (case unmarshalResponse P (clientFormat c) out response of
                                    (err, response') \<Rightarrow> Returns (err, response', c1, w2)))))))"

subsection \<open>Notions used to state the properties of the arg pattern\<close>

text \<open>
  The language of a regular expression, against which the matcher is proved correct,
  and the two character classes of \<^verbatim>\<open>argRegexp\<close>: \<^verbatim>\<open>[a-zA-Z0-9]\<close> and \<^verbatim>\<open>[a-zA-Z0-9_-]\<close>.
\<close>

inductive_set star :: "string set \<Rightarrow> string set" for A :: "string set" where
  star_nil: "[] \<in> star A"
| star_app: "u \<in> A \<Longrightarrow> v \<in> star A \<Longrightarrow> u @ v \<in> star A"

fun lang :: "regexp \<Rightarrow> string set" where
  "lang NoMatch = {}"
| "lang EmptyMatch = {[]}"
| "lang (CharClass rs) = {[c] | c. inClass c rs}"
| "lang (Concat r s) = {u @ v | u v. u \<in> lang r \<and> v \<in> lang s}"
| "lang (Alternate r s) = lang r \<union> lang s"
| "lang (Star r) = star (lang r)"

definition isAlnum :: "char \<Rightarrow> bool" where
  "isAlnum c = inClass c [(CHR ''a'', CHR ''z''), (CHR ''A'', CHR ''Z''), (CHR ''0'', CHR ''9'')]"

definition isWordChar :: "char \<Rightarrow> bool" where
  "isWordChar c = inClass c [(CHR ''a'', CHR ''z''), (CHR ''A'', CHR ''Z''), (CHR ''0'', CHR ''9''),
      (CHR ''_'', CHR ''_''), (CHR ''-'', CHR ''-'')]"

subsection \<open>Notions used to state the properties of specs\<close>

text \<open>
  The space-joined strings of the non-empty args of a list of procedures, in order, and
  the concatenation of the procedures of the non-nil specs of a list.
\<close>

definition joinedArgsList :: "procedure list \<Rightarrow> string list" where
  "joinedArgsList procs = map (\<lambda>p. Join (args p) '' '') (filter (\<lambda>p. args p \<noteq> []) procs)"

definition concatProcedures :: "spec option list \<Rightarrow> procedure list" where
  "concatProcedures specs =
     concat (map (\<lambda>s. case s of None \<Rightarrow> [] | Some sp \<Rightarrow> procedures sp) specs)"

subsection \<open>Notions used to state the properties of the client\<close>

text \<open>
  A runner that answers by a fixed function of the environment and whose state is the
  list of the environments it was run with.
\<close>

definition recordingRunner :: "(Env \<Rightarrow> error option \<times> bytes) \<Rightarrow> Env list Runner" where
  "recordingRunner answer env runs = (answer env, runs @ [env])"

subsection \<open>Sample instances\<close>

text \<open>
  An instance of the standard-library parameters on which the theorems are exercised:
  quoting adds the two quote characters, the last steps of the URL parser accept
  everything, trimming cuts at the first newline, and only \<^verbatim>\<open>1\<close> is read as a number.
\<close>

definition exampleLib :: strlib where
  "exampleLib =
     \<lparr>Quote = (\<lambda>s. CHR 0x22 # s @ [CHR 0x22]),
      parseTail = (\<lambda>s. None),
      TrimSpace = takeWhile (\<lambda>c. c \<noteq> CHR 0x0A),
      Atoi = (\<lambda>s. if s = ''1'' then Inr 1 else Inl (ErrorString ''invalid syntax''))\<rparr>"

text \<open>
  An instance of the protobuf parameters on which the theorems are exercised: messages
  and \<^verbatim>\<open>Any\<close> values are strings, a response envelope is decoded from a few fixed byte
  strings, and the spec message holds the procedures \<^verbatim>\<open>/svc/Echo\<close> (args \<^verbatim>\<open>echo request\<close>)
  and \<^verbatim>\<open>/svc/List\<close> (no args).
\<close>

definition exampleProto :: "(string, string) protolib" where
  "exampleProto =
     \<lparr>Marshal_Request = (\<lambda>c r. Inr (case requestValue r of None \<Rightarrow> [] | Some a \<Rightarrow> ''request '' @ a)),
      Unmarshal_Request = (\<lambda>c d. Inr \<lparr>requestValue = Some (drop 8 d)\<rparr>),
      Marshal_Response = (\<lambda>c r. Inr
        ((case responseValue r of None \<Rightarrow> [] | Some a \<Rightarrow> ''value '' @ a)
         @ (case responseError r of None \<Rightarrow> []
            | Some pe \<Rightarrow> ''error '' @ formatNat (unat (protoCode pe)) @ '' '' @ protoMessage pe))),
      Unmarshal_Response = (\<lambda>c d.
        if d = ''both'' then
          Inr \<lparr>responseValue = Some ''partial'',
               responseError = Some \<lparr>protoCode = 4, protoMessage = ''hello''\<rparr>\<rparr>
        else if d = ''error'' then
          Inr \<lparr>responseValue = None,
               responseError = Some \<lparr>protoCode = 4, protoMessage = ''hello''\<rparr>\<rparr>
        else if d = ''garbage'' then Inl (ErrorString ''cannot parse'')
        else Inr \<lparr>responseValue = Some d, responseError = None\<rparr>),
      Marshal_Spec = (\<lambda>c ps. Inr ''spec''),
      Unmarshal_Spec = (\<lambda>c d.
        if d = ''spec'' then
          Inr [\<lparr>protoPath = ''/svc/Echo'', protoArgs = [''echo'', ''request'']\<rparr>,
               \<lparr>protoPath = ''/svc/List'', protoArgs = []\<rparr>]
        else Inl (ErrorString ''cannot parse'')),
      anypb_New = (\<lambda>m. case m of None \<Rightarrow> Inl (ErrorString ''invalid nil message'') | Some x \<Rightarrow> Inr x),
      anypb_UnmarshalTo = (\<lambda>a dst. case dst of
          None \<Rightarrow> (Some (ErrorString ''invalid nil destination''), None)
        | Some old \<Rightarrow> (None, Some a)),
      protoCode_String = (\<lambda>c. formatNat (unat c))\<rparr>"

text \<open>A writer that appends to a buffer and never fails.\<close>

definition bufferWriter :: "bytes Writer" where
  "bufferWriter = \<lparr>sink = [], writeTo = (\<lambda>data buf. (None, buf @ data))\<rparr>"

text \<open>
  A handler environment whose standard input is a terminal, and a user function that
  returns no response and the error \<^verbatim>\<open>NewError(CodeDeadlineExceeded, errors.New("hello"))\<close>,
  as \<^verbatim>\<open>EchoError\<close> does in pluginrpc\_test.go.
\<close>

definition terminalEnv :: "bytes HandleEnv" where
  "terminalEnv = \<lparr>Stdin = \<lparr>isTerminal = True, content = [], readErr = None\<rparr>, Stdout = bufferWriter\<rparr>"

definition failingHandle :: "string anyval \<Rightarrow> string anyval \<times> error option" where
  "failingHandle request =
     (AnyNil, Some (ErrorPtr (NewError CodeDeadlineExceeded (Some (ErrorString ''hello'')))))"

text \<open>
  A plugin that answers the handshake and the two procedures of \<open>exampleProto\<close>, the
  spec it advertises, and a client that has that spec in its cache.
\<close>

definition examplePlugin :: "Env \<Rightarrow> error option \<times> bytes" where
  "examplePlugin env =
     (if Args env = [''--protocol''] then (None, ''1'' @ [CHR 0x0A])
      else if Args env = [''--spec'', ''--format'', ''binary''] then (None, ''spec'')
      else if Args env = [''echo'', ''request'', ''--format'', ''binary''] then (None, ''hello'')
      else if Args env = [''/svc/List'', ''--format'', ''binary''] then (None, ''foo bar'')
      else (Some (ErrorString ''exit status 1''), []))"

definition exampleSpec :: spec where
  "exampleSpec =
     \<lparr>procedures = [\<lparr>path = ''/svc/Echo'', args = [''echo'', ''request'']\<rparr>,
                     \<lparr>path = ''/svc/List'', args = []\<rparr>],
      pathToProcedure = [''/svc/Echo'' \<mapsto> \<lparr>path = ''/svc/Echo'', args = [''echo'', ''request'']\<rparr>,
                         ''/svc/List'' \<mapsto> \<lparr>path = ''/svc/List'', args = []\<rparr>]\<rparr>"

definition exampleClient :: "Env list client" where
  "exampleClient =
     \<lparr>clientRunner = recordingRunner examplePlugin, clientFormat = FormatBinary,
      clientSpec = Some exampleSpec, clientSpecErr = None\<rparr>"

section \<open>Properties\<close>

subsection \<open>Codes\<close>

lemma isValidCode_range: "isValidCode c \<longleftrightarrow> 1 \<le> unat c \<and> unat c \<le> 16"
  by (simp add: isValidCode_def minCode_def maxCode_def CodeCanceled_def
      CodeUnauthenticated_def word_le_nat_alt)

lemma isValidCode_CodeInternal: "isValidCode CodeInternal"
  by (simp add: isValidCode_range CodeInternal_def)

lemma formatNat_0: "formatNat 0 = ''0''"
  by (simp add: formatNat.simps digitChar_def)

lemma Itoa_0: "Itoa 0 = ''0''"
  by (simp add: Itoa_def formatNat_0)

subsection \<open>The arg pattern\<close>

text \<open>The derivative matcher decides membership in the language of the expression.\<close>

lemma nullable_lang: "nullable r \<longleftrightarrow> [] \<in> lang r"
  by (induction r) (auto intro: star_nil)

lemma star_Cons:
  "x \<in> star A \<Longrightarrow> x = c # w \<Longrightarrow> \<exists>u v. w = u @ v \<and> c # u \<in> A \<and> v \<in> star A"
proof (induction arbitrary: w rule: star.induct)
  case star_nil
  then show ?case by simp
next
  case (star_app u v)
  show ?case
  proof (cases u)
    case Nil
    with star_app show ?thesis by simp
  next
    case (Cons a u')
    with star_app.prems have "a = c" and "w = u' @ v" by simp_all
    with star_app.hyps Cons show ?thesis by blast
  qed
qed

lemma star_Cons_iff:
  "c # w \<in> star A \<longleftrightarrow> (\<exists>u v. w = u @ v \<and> c # u \<in> A \<and> v \<in> star A)"
proof
  assume "c # w \<in> star A"
  then show "\<exists>u v. w = u @ v \<and> c # u \<in> A \<and> v \<in> star A"
    using star_Cons by blast
next
  assume "\<exists>u v. w = u @ v \<and> c # u \<in> A \<and> v \<in> star A"
  then obtain u v where "w = u @ v" "c # u \<in> A" "v \<in> star A" by blast
  then show "c # w \<in> star A"
    using star_app [of "c # u" A v] by simp
qed

lemma lang_ConcatI: "u \<in> lang r \<Longrightarrow> v \<in> lang s \<Longrightarrow> u @ v \<in> lang (Concat r s)"
  by auto

lemma lang_ConcatE:
  "w \<in> lang (Concat r s) \<Longrightarrow> \<exists>u v. w = u @ v \<and> u \<in> lang r \<and> v \<in> lang s"
  by auto

lemma deriv_lang: "w \<in> lang (deriv c r) \<longleftrightarrow> c # w \<in> lang r"
proof (induction r arbitrary: w)
  case NoMatch
  show ?case by simp
next
  case EmptyMatch
  show ?case by simp
next
  case (CharClass rs)
  show ?case by simp
next
  case (Alternate r s)
  then show ?case by simp
next
  case (Concat r s)
  show ?case
  proof
    assume d: "w \<in> lang (deriv c (Concat r s))"
    have "(\<exists>u v. w = u @ v \<and> c # u \<in> lang r \<and> v \<in> lang s)
        \<or> ([] \<in> lang r \<and> c # w \<in> lang s)"
    proof (cases "nullable r")
      case True
      with d have "w \<in> lang (Concat (deriv c r) s) \<or> w \<in> lang (deriv c s)" by simp
      then show ?thesis
      proof
        assume "w \<in> lang (Concat (deriv c r) s)"
        then obtain u v where "w = u @ v" "u \<in> lang (deriv c r)" "v \<in> lang s"
          using lang_ConcatE by blast
        then show ?thesis using Concat.IH(1) by blast
      next
        assume "w \<in> lang (deriv c s)"
        then show ?thesis using Concat.IH(2) True nullable_lang by blast
      qed
    next
      case False
      with d have "w \<in> lang (Concat (deriv c r) s)" by simp
      then obtain u v where "w = u @ v" "u \<in> lang (deriv c r)" "v \<in> lang s"
        using lang_ConcatE by blast
      then show ?thesis using Concat.IH(1) by blast
    qed
    then show "c # w \<in> lang (Concat r s)"
    proof (elim disjE exE conjE)
      fix u v
      assume w: "w = u @ v" and u: "c # u \<in> lang r" and v: "v \<in> lang s"
      from u v have "(c # u) @ v \<in> lang (Concat r s)" by (rule lang_ConcatI)
      moreover from w have "c # w = (c # u) @ v" by simp
      ultimately show ?thesis by (simp only:)
    next
      assume "[] \<in> lang r" "c # w \<in> lang s"
      then have "[] @ (c # w) \<in> lang (Concat r s)" by (rule lang_ConcatI)
      then show ?thesis by (simp only: append_Nil)
    qed
  next
    assume "c # w \<in> lang (Concat r s)"
    then obtain u v where uv: "c # w = u @ v" "u \<in> lang r" "v \<in> lang s"
      using lang_ConcatE by blast
    show "w \<in> lang (deriv c (Concat r s))"
    proof (cases u)
      case Nil
      with uv have "nullable r" "w \<in> lang (deriv c s)"
        using Concat.IH(2) by (simp_all add: nullable_lang)
      then show ?thesis by simp
    next
      case (Cons a u')
      with uv have eq: "a = c" "w = u' @ v" by simp_all
      with uv Cons have "u' \<in> lang (deriv c r)" using Concat.IH(1) by simp
      then have "u' @ v \<in> lang (Concat (deriv c r) s)" using uv(3) by (rule lang_ConcatI)
      then have "w \<in> lang (Concat (deriv c r) s)" using eq by (simp only:)
      then show ?thesis by (cases "nullable r") simp_all
    qed
  qed
next
  case (Star r)
  have "w \<in> lang (deriv c (Star r)) \<longleftrightarrow> (\<exists>u v. w = u @ v \<and> u \<in> lang (deriv c r) \<and> v \<in> star (lang r))"
    by auto
  also have "\<dots> \<longleftrightarrow> (\<exists>u v. w = u @ v \<and> c # u \<in> lang r \<and> v \<in> star (lang r))"
    using Star.IH by simp
  also have "\<dots> \<longleftrightarrow> c # w \<in> star (lang r)"
    by (rule star_Cons_iff [symmetric])
  finally show ?case by simp
qed

lemma MatchString_lang: "MatchString r s \<longleftrightarrow> s \<in> lang r"
  by (induction s arbitrary: r) (simp_all add: nullable_lang deriv_lang)

lemma star_class: "w \<in> star {[c] | c. P c} \<longleftrightarrow> list_all P w"
proof
  assume "w \<in> star {[c] | c. P c}"
  then show "list_all P w"
    by (induction rule: star.induct) auto
next
  assume "list_all P w"
  then show "w \<in> star {[c] | c. P c}"
  proof (induction w)
    case Nil
    show ?case by (rule star_nil)
  next
    case (Cons a w)
    then have "[a] \<in> {[c] | c. P c}" and "w \<in> star {[c] | c. P c}" by auto
    then have "[a] @ w \<in> star {[c] | c. P c}" by (rule star_app)
    then show ?case by simp
  qed
qed

text \<open>
  A string matches \<^verbatim>\<open>argRegexp\<close> exactly when it is a letter or digit, then any number of
  letters, digits, underscores and dashes, then a letter or digit.
\<close>

lemma lang_alnum: "[c] \<in> lang (CharClass [(CHR ''a'', CHR ''z''), (CHR ''A'', CHR ''Z''),
      (CHR ''0'', CHR ''9'')]) \<longleftrightarrow> isAlnum c"
  by (simp add: isAlnum_def)

lemma lang_word_star: "m \<in> lang (Star (CharClass [(CHR ''a'', CHR ''z''), (CHR ''A'', CHR ''Z''),
      (CHR ''0'', CHR ''9''), (CHR ''_'', CHR ''_''), (CHR ''-'', CHR ''-'')]))
    \<longleftrightarrow> list_all isWordChar m"
  by (simp add: star_class isWordChar_def [abs_def])

lemma lang_CharClass_single: "w \<in> lang (CharClass rs) \<Longrightarrow> \<exists>c. w = [c]"
  by auto

lemma argRegexp_matches:
  "MatchString argRegexp s \<longleftrightarrow>
     (\<exists>a m b. s = a # m @ [b] \<and> isAlnum a \<and> list_all isWordChar m \<and> isAlnum b)"
proof
  assume "MatchString argRegexp s"
  then have "s \<in> lang argRegexp" by (simp add: MatchString_lang)
  then obtain u v where s: "s = u @ v"
    and u: "u \<in> lang (CharClass [(CHR ''a'', CHR ''z''), (CHR ''A'', CHR ''Z''), (CHR ''0'', CHR ''9'')])"
    and v: "v \<in> lang (Concat (Star (CharClass [(CHR ''a'', CHR ''z''),
      (CHR ''A'', CHR ''Z''), (CHR ''0'', CHR ''9''), (CHR ''_'', CHR ''_''),
      (CHR ''-'', CHR ''-'')])) (CharClass [(CHR ''a'', CHR ''z''), (CHR ''A'', CHR ''Z''),
      (CHR ''0'', CHR ''9'')]))"
    unfolding argRegexp_def using lang_ConcatE by blast
  from v obtain m t where v': "v = m @ t"
    and m: "m \<in> lang (Star (CharClass [(CHR ''a'', CHR ''z''), (CHR ''A'', CHR ''Z''),
      (CHR ''0'', CHR ''9''), (CHR ''_'', CHR ''_''), (CHR ''-'', CHR ''-'')]))"
    and t: "t \<in> lang (CharClass [(CHR ''a'', CHR ''z''), (CHR ''A'', CHR ''Z''), (CHR ''0'', CHR ''9'')])"
    using lang_ConcatE by blast
  from u obtain a where a: "u = [a]" using lang_CharClass_single by blast
  from t obtain b where b: "t = [b]" using lang_CharClass_single by blast
  have "isAlnum a" using u a lang_alnum by simp
  moreover have "isAlnum b" using t b lang_alnum by simp
  moreover have "list_all isWordChar m" using m lang_word_star by simp
  moreover have "s = a # m @ [b]" using s v' a b by simp
  ultimately show "\<exists>a m b. s = a # m @ [b] \<and> isAlnum a \<and> list_all isWordChar m \<and> isAlnum b"
    by blast
next
  assume "\<exists>a m b. s = a # m @ [b] \<and> isAlnum a \<and> list_all isWordChar m \<and> isAlnum b"
  then obtain a m b where s: "s = [a] @ (m @ [b])" and a: "isAlnum a"
    and m: "list_all isWordChar m" and b: "isAlnum b" by auto
  have "m \<in> lang (Star (CharClass [(CHR ''a'', CHR ''z''), (CHR ''A'', CHR ''Z''),
      (CHR ''0'', CHR ''9''), (CHR ''_'', CHR ''_''), (CHR ''-'', CHR ''-'')]))"
    using m by (simp only: lang_word_star)
  moreover have "[b] \<in> lang (CharClass [(CHR ''a'', CHR ''z''), (CHR ''A'', CHR ''Z''),
      (CHR ''0'', CHR ''9'')])"
    using b by (simp only: lang_alnum)
  ultimately have "m @ [b] \<in> lang (Concat (Star (CharClass [(CHR ''a'', CHR ''z''),
      (CHR ''A'', CHR ''Z''), (CHR ''0'', CHR ''9''), (CHR ''_'', CHR ''_''),
      (CHR ''-'', CHR ''-'')])) (CharClass [(CHR ''a'', CHR ''z''), (CHR ''A'', CHR ''Z''),
      (CHR ''0'', CHR ''9'')]))"
    by (rule lang_ConcatI)
  moreover have "[a] \<in> lang (CharClass [(CHR ''a'', CHR ''z''), (CHR ''A'', CHR ''Z''),
      (CHR ''0'', CHR ''9'')])"
    using a by (simp only: lang_alnum)
  ultimately have "[a] @ (m @ [b]) \<in> lang argRegexp"
    unfolding argRegexp_def by (rule lang_ConcatI [rotated])
  then show "MatchString argRegexp s"
    by (simp only: MatchString_lang s)
qed


lemma argRegexp_length: "MatchString argRegexp s \<Longrightarrow> 2 \<le> length s"
  by (auto simp: argRegexp_matches)

lemma argRegexp_ends:
  "MatchString argRegexp s \<Longrightarrow> isAlnum (hd s) \<and> isAlnum (last s)"
  by (auto simp: argRegexp_matches)



subsection \<open>The URL parser\<close>

lemmas url_defs = ParseRequestURI_def url_parse_def getScheme_def stringContainsCTLByte_def
  HasPrefix_def HasSuffix_def beforeQuery_def inClass_def







subsection \<open>Procedures\<close>




subsection \<open>Specs\<close>

lemma Procedure_Path_eq: "Procedure_Path = path"
  by (rule ext) (simp add: Procedure_Path_def)

lemma joinedArgsList_Cons:
  "joinedArgsList (p # ps) =
     (if args p \<noteq> [] then Join (args p) '' '' # joinedArgsList ps else joinedArgsList ps)"
  by (simp add: joinedArgsList_def)

lemma validateProcedures_loop_None_iff:
  "validateProcedures_loop L P A ps = None \<longleftrightarrow>
     distinct (map path ps) \<and> path ` set ps \<inter> P = {}
     \<and> distinct (joinedArgsList ps) \<and> set (joinedArgsList ps) \<inter> A = {}"
proof (induction ps arbitrary: P A)
  case Nil
  show ?case by (simp add: joinedArgsList_def)
next
  case (Cons p ps)
  show ?case
  proof (cases "args p = []")
    case True
    then show ?thesis
      using Cons.IH [of "insert (path p) P" A]
      by (auto simp: Procedure_Path_def Procedure_Args_def joinedArgsList_Cons Let_def)
  next
    case False
    then show ?thesis
      using Cons.IH [of "insert (path p) P" "insert (Join (args p) '' '') A"]
      by (auto simp: Procedure_Path_def Procedure_Args_def joinedArgsList_Cons Let_def)
  qed
qed

lemma validateProcedures_None_iff:
  "validateProcedures L ps = None \<longleftrightarrow> distinct (map path ps) \<and> distinct (joinedArgsList ps)"
  by (simp add: validateProcedures_def validateProcedures_loop_None_iff)

lemma newSpec_Inr_iff:
  "newSpec L procs = Inr s \<longleftrightarrow>
     procs \<noteq> [] \<and> distinct (map path procs) \<and> distinct (joinedArgsList procs)
     \<and> s = \<lparr>procedures = procs,
            pathToProcedure = fold (\<lambda>p m. m(Procedure_Path p \<mapsto> p)) procs Map.empty\<rparr>"
proof (cases "validateProcedures L procs")
  case None
  then show ?thesis
    using validateProcedures_None_iff [of L procs] by (auto simp: newSpec_def)
next
  case (Some err)
  then show ?thesis
    using validateProcedures_None_iff [of L procs] by (auto simp: newSpec_def)
qed

lemma newSpec_isl_iff:
  "isl (newSpec L procs) \<longleftrightarrow>
     procs = [] \<or> \<not> distinct (map path procs) \<or> \<not> distinct (joinedArgsList procs)"
proof (cases "validateProcedures L procs")
  case None
  then show ?thesis
    using validateProcedures_None_iff [of L procs] by (auto simp: newSpec_def)
next
  case (Some err)
  then show ?thesis
    using validateProcedures_None_iff [of L procs] by (auto simp: newSpec_def)
qed

lemma NewSpecForProto_loop_invalid:
  "pp \<in> set pps \<Longrightarrow> isl (NewProcedureForProto L pp) \<Longrightarrow> isl (NewSpecForProto_loop L pps)"
  by (induction pps) (auto split: sum.splits)

lemma index_other:
  "x \<notin> Procedure_Path ` set ps \<Longrightarrow> fold (\<lambda>p m. m(Procedure_Path p \<mapsto> p)) ps m x = m x"
  by (induction ps arbitrary: m) auto

lemma index_member:
  "distinct (map Procedure_Path ps) \<Longrightarrow> p \<in> set ps \<Longrightarrow>
     fold (\<lambda>p m. m(Procedure_Path p \<mapsto> p)) ps m (Procedure_Path p) = Some p"
proof (induction ps arbitrary: m)
  case Nil
  then show ?case by simp
next
  case (Cons q qs)
  show ?case
  proof (cases "p = q")
    case True
    with Cons.prems have "Procedure_Path q \<notin> Procedure_Path ` set qs" by auto
    then have "fold (\<lambda>p m. m(Procedure_Path p \<mapsto> p)) qs (m(Procedure_Path q \<mapsto> q)) (Procedure_Path q)
        = (m(Procedure_Path q \<mapsto> q)) (Procedure_Path q)"
      by (rule index_other)
    then show ?thesis using True by (simp only: fold_simps o_apply fun_upd_same)
  next
    case False
    with Cons show ?thesis by auto
  qed
qed

lemma foldl_append_concat:
  "foldl (\<lambda>acc s. case s of None \<Rightarrow> acc | Some sp \<Rightarrow> acc @ Procedures sp) acc specs =
     acc @ concatProcedures specs"
  by (induction specs arbitrary: acc) (auto simp: concatProcedures_def Procedures_def split: option.splits)

lemma MergeSpecs_eq: "MergeSpecs L specs = NewSpec L (concatProcedures specs)"
  by (simp add: MergeSpecs_def foldl_append_concat)

lemma concatProcedures_filter:
  "concatProcedures (filter (\<lambda>s. s \<noteq> None) specs) = concatProcedures specs"
  by (induction specs) (auto simp: concatProcedures_def)

lemma concatProcedures_all_nil:
  "\<forall>s \<in> set specs. s = None \<Longrightarrow> concatProcedures specs = []"
  by (induction specs) (auto simp: concatProcedures_def)

text \<open>
  The earlier \<^verbatim>\<open>newSpec\<close> of src/spec.go agrees with the one of part\_002 on every non-empty
  list and accepts the empty list.
\<close>

lemma newSpec_spec_go_agrees:
  "procs \<noteq> [] \<Longrightarrow> newSpec_spec_go L procs = newSpec L procs"
  by (simp add: newSpec_spec_go_def newSpec_def validateSpecProcedures_def validateProcedures_def)

lemma newSpec_spec_go_empty:
  "newSpec_spec_go L [] = Inr \<lparr>procedures = [], pathToProcedure = Map.empty\<rparr>"
  by (simp add: newSpec_spec_go_def validateSpecProcedures_def)

text \<open>
  Claim C2, as stated, fails: \<open>NewSpec\<close> does not validate the procedures it is given.
  The procedure with the empty path is rejected by \<open>validateProcedure\<close>, yet \<open>NewSpec\<close>
  builds a spec from it.
\<close>

theorem NewSpec_invalid_procedure_counterexample:
  "validateProcedure exampleLib \<lparr>path = [], args = []\<rparr> \<noteq> None
   \<and> NewSpec exampleLib [\<lparr>path = [], args = []\<rparr>] =
       Inr \<lparr>procedures = [\<lparr>path = [], args = []\<rparr>],
            pathToProcedure = [[] \<mapsto> \<lparr>path = [], args = []\<rparr>]\<rparr>"
  by (simp add: validateProcedure_def NewSpec_def newSpec_def validateProcedures_def
      Procedure_Path_def Procedure_Args_def)

text \<open>
  Claim C2, amended. \<open>NewSpec\<close> returns an error exactly when the sequence is empty, two
  procedures share a path, or two procedures with non-empty args share the space-joined
  args string. It does not validate the procedures themselves: a procedure is validated
  where it is built, so \<open>NewSpecForProto\<close> returns an error whenever one of the
  procedures of the message is rejected by \<open>NewProcedureForProto\<close>.
\<close>

theorem NewSpec_fails_iff:
  "(isl (NewSpec L procs) \<longleftrightarrow>
      procs = [] \<or> \<not> distinct (map Procedure_Path procs) \<or> \<not> distinct (joinedArgsList procs))
   \<and> ((\<exists>pp \<in> set pps. isl (NewProcedureForProto L pp)) \<longrightarrow> isl (NewSpecForProto L pps))"
proof (intro conjI impI)
  show "isl (NewSpec L procs) \<longleftrightarrow>
      procs = [] \<or> \<not> distinct (map Procedure_Path procs) \<or> \<not> distinct (joinedArgsList procs)"
    by (simp add: NewSpec_def newSpec_isl_iff Procedure_Path_eq)
next
  assume "\<exists>pp \<in> set pps. isl (NewProcedureForProto L pp)"
  then have "isl (NewSpecForProto_loop L pps)"
    using NewSpecForProto_loop_invalid by blast
  then show "isl (NewSpecForProto L pps)"
    by (cases "NewSpecForProto_loop L pps") (simp_all add: NewSpecForProto_def)
qed

text \<open>
  The empty sequence, a duplicate path, duplicate args, a valid sequence, and a message
  with a path that does not start with a slash.
\<close>

theorem NewSpec_fails_iff_witness:
  "isl (NewSpec exampleLib [])
   \<and> isl (NewSpec exampleLib [\<lparr>path = ''/foo/bar'', args = []\<rparr>, \<lparr>path = ''/foo/bar'', args = [''foo'']\<rparr>])
   \<and> isl (NewSpec exampleLib [\<lparr>path = ''/foo/bar'', args = [''foo'', ''bar'']\<rparr>,
        \<lparr>path = ''/foo/baz'', args = [''foo'', ''bar'']\<rparr>])
   \<and> \<not> isl (NewSpec exampleLib [\<lparr>path = ''/foo/bar'', args = [''foo'', ''bar'']\<rparr>,
        \<lparr>path = ''/foo/baz'', args = []\<rparr>, \<lparr>path = ''/foo/bat'', args = []\<rparr>])
   \<and> isl (NewSpecForProto exampleLib [\<lparr>protoPath = ''foo/bar'', protoArgs = []\<rparr>])"
  using NewSpec_fails_iff [of exampleLib "[]" "[\<lparr>protoPath = ''foo/bar'', protoArgs = []\<rparr>]"]
    NewSpec_fails_iff [of exampleLib
      "[\<lparr>path = ''/foo/bar'', args = []\<rparr>, \<lparr>path = ''/foo/bar'', args = [''foo'']\<rparr>]" "[]"]
    NewSpec_fails_iff [of exampleLib
      "[\<lparr>path = ''/foo/bar'', args = [''foo'', ''bar'']\<rparr>,
        \<lparr>path = ''/foo/baz'', args = [''foo'', ''bar'']\<rparr>]" "[]"]
    NewSpec_fails_iff [of exampleLib
      "[\<lparr>path = ''/foo/bar'', args = [''foo'', ''bar'']\<rparr>,
        \<lparr>path = ''/foo/baz'', args = []\<rparr>, \<lparr>path = ''/foo/bat'', args = []\<rparr>]" "[]"]
  by (simp add: joinedArgsList_def Procedure_Path_def NewProcedureForProto_def newProcedure_def
      validateProcedure_def exampleLib_def ProcedureWithArgs_def newProcedureOptions_def url_defs)

text \<open>
  Claim C4. \<open>MergeSpecs\<close> skips nil inputs: for all specs \<open>a\<close> and \<open>b\<close>,
  \<open>MergeSpecs [a, nil, b]\<close> is \<open>MergeSpecs [a, b]\<close>, and more generally dropping the nil
  inputs does not change the result; a spec it returns holds the concatenated procedures
  in order. Applied to nil specs only it returns an error, and it returns an error
  whenever the concatenated procedures contain a duplicate path or duplicate non-empty
  args.
\<close>

theorem MergeSpecs_skips_nil:
  "MergeSpecs L [a, None, b] = MergeSpecs L [a, b]
   \<and> MergeSpecs L (filter (\<lambda>s. s \<noteq> None) specs) = MergeSpecs L specs
   \<and> (\<forall>s'. MergeSpecs L specs = Inr s' \<longrightarrow> Procedures s' = concatProcedures specs)
   \<and> ((\<forall>s \<in> set specs. s = None) \<longrightarrow> isl (MergeSpecs L specs))
   \<and> (\<not> distinct (map Procedure_Path (concatProcedures specs))
        \<or> \<not> distinct (joinedArgsList (concatProcedures specs)) \<longrightarrow> isl (MergeSpecs L specs))"
proof (intro conjI impI allI)
  show "MergeSpecs L [a, None, b] = MergeSpecs L [a, b]"
    by (simp add: MergeSpecs_def)
  show "MergeSpecs L (filter (\<lambda>s. s \<noteq> None) specs) = MergeSpecs L specs"
    by (simp only: MergeSpecs_eq concatProcedures_filter)
  show "Procedures s' = concatProcedures specs" if "MergeSpecs L specs = Inr s'" for s'
    using that by (auto simp: MergeSpecs_eq NewSpec_def newSpec_Inr_iff Procedures_def)
  show "isl (MergeSpecs L specs)" if "\<forall>s \<in> set specs. s = None"
    using concatProcedures_all_nil [OF that]
    by (simp add: MergeSpecs_eq NewSpec_def newSpec_isl_iff)
  show "isl (MergeSpecs L specs)"
    if "\<not> distinct (map Procedure_Path (concatProcedures specs))
        \<or> \<not> distinct (joinedArgsList (concatProcedures specs))"
  proof -
    have "map Procedure_Path (concatProcedures specs) = map path (concatProcedures specs)"
      by (simp add: Procedure_Path_def)
    with that show ?thesis
      by (auto simp: MergeSpecs_eq NewSpec_def newSpec_isl_iff)
  qed
qed

text \<open>
  The merge of \<^verbatim>\<open>/foo/bar\<close> and \<^verbatim>\<open>/foo/baz\<close> with and without a nil between them, the
  merge of two nils, and the merge of two specs whose procedures share their args.
\<close>

theorem MergeSpecs_skips_nil_witness:
  "MergeSpecs exampleLib
     [Some \<lparr>procedures = [\<lparr>path = ''/foo/bar'', args = []\<rparr>], pathToProcedure = Map.empty\<rparr>, None,
      Some \<lparr>procedures = [\<lparr>path = ''/foo/baz'', args = []\<rparr>], pathToProcedure = Map.empty\<rparr>]
   = MergeSpecs exampleLib
     [Some \<lparr>procedures = [\<lparr>path = ''/foo/bar'', args = []\<rparr>], pathToProcedure = Map.empty\<rparr>,
      Some \<lparr>procedures = [\<lparr>path = ''/foo/baz'', args = []\<rparr>], pathToProcedure = Map.empty\<rparr>]
   \<and> isl (MergeSpecs exampleLib [None, None])
   \<and> isl (MergeSpecs exampleLib
     [Some \<lparr>procedures = [\<lparr>path = ''/foo/bar'', args = [''foo'', ''bar'']\<rparr>], pathToProcedure = Map.empty\<rparr>,
      Some \<lparr>procedures = [\<lparr>path = ''/foo/baz'', args = [''foo'', ''bar'']\<rparr>], pathToProcedure = Map.empty\<rparr>])"
  using MergeSpecs_skips_nil [of exampleLib
      "Some \<lparr>procedures = [\<lparr>path = ''/foo/bar'', args = []\<rparr>], pathToProcedure = Map.empty\<rparr>"
      "Some \<lparr>procedures = [\<lparr>path = ''/foo/baz'', args = []\<rparr>], pathToProcedure = Map.empty\<rparr>"
      "[None, None]"]
    MergeSpecs_skips_nil [of exampleLib None None
      "[Some \<lparr>procedures = [\<lparr>path = ''/foo/bar'', args = [''foo'', ''bar'']\<rparr>], pathToProcedure = Map.empty\<rparr>,
      Some \<lparr>procedures = [\<lparr>path = ''/foo/baz'', args = [''foo'', ''bar'']\<rparr>], pathToProcedure = Map.empty\<rparr>]"]
  by (simp add: concatProcedures_def joinedArgsList_def Procedure_Path_def)

text \<open>
  Claim C5. For every spec \<open>s\<close> returned by \<open>NewSpec\<close> and every procedure \<open>p\<close> of
  \<open>Procedures s\<close>, \<open>ProcedureForPath s (Procedure_Path p)\<close> is \<open>p\<close>; for every string
  that is the path of no procedure of \<open>s\<close>, \<open>ProcedureForPath\<close> returns nil.
\<close>

theorem ProcedureForPath_index:
  assumes "NewSpec L procs = Inr s"
  shows "(\<forall>p \<in> set (Procedures s). ProcedureForPath s (Procedure_Path p) = Some p)
    \<and> (\<forall>x. x \<notin> Procedure_Path ` set (Procedures s) \<longrightarrow> ProcedureForPath s x = None)"
proof -
  from assms have d: "distinct (map path procs)"
    and s: "s = \<lparr>procedures = procs,
            pathToProcedure = fold (\<lambda>p m. m(Procedure_Path p \<mapsto> p)) procs Map.empty\<rparr>"
    by (simp_all add: NewSpec_def newSpec_Inr_iff)
  have d': "distinct (map Procedure_Path procs)"
    using d by (simp add: Procedure_Path_def [abs_def])
  show ?thesis
    using index_member [OF d'] 
    by (auto simp: s ProcedureForPath_def Procedures_def index_other)
qed

text \<open>A spec of two procedures: both paths are found, a third path is not.\<close>

theorem ProcedureForPath_index_witness:
  "\<exists>s. NewSpec exampleLib [\<lparr>path = ''/foo/bar'', args = [''foo'', ''bar'']\<rparr>,
        \<lparr>path = ''/foo/baz'', args = []\<rparr>] = Inr s
     \<and> ProcedureForPath s ''/foo/bar'' = Some \<lparr>path = ''/foo/bar'', args = [''foo'', ''bar'']\<rparr>
     \<and> ProcedureForPath s ''/foo/baz'' = Some \<lparr>path = ''/foo/baz'', args = []\<rparr>
     \<and> ProcedureForPath s ''/foo/bat'' = None"
proof -
  let ?procs = "[\<lparr>path = ''/foo/bar'', args = [''foo'', ''bar'']\<rparr>, \<lparr>path = ''/foo/baz'', args = []\<rparr>]"
  obtain s where s: "NewSpec exampleLib ?procs = Inr s"
    by (simp add: NewSpec_def newSpec_def validateProcedures_def Procedure_Path_def
        Procedure_Args_def)
  have p: "Procedures s = ?procs"
    using s by (auto simp: NewSpec_def newSpec_Inr_iff Procedures_def)
  show ?thesis
    using ProcedureForPath_index [OF s] s by (simp add: p Procedure_Path_def)
qed

subsection \<open>RPC errors\<close>

text \<open>
  Whatever pointer it is given, also the nil pointer, \<open>validateError\<close> returns an
  \<^verbatim>\<open>Error\<close> with a valid code and an underlying error whose message is not empty.
\<close>

lemma validateError_shape:
  "\<exists>c u. validateError p = Some (MkError c (Some u)) \<and> isValidCode c \<and> error_Error u \<noteq> []"
proof (cases p)
  case None
  then show ?thesis
    by (simp add: validateError_def Error_Code_def isValidCode_range newInvalidCodeError_def
        CodeInternal_def Errorf_w_def Error_Unwrap_def)
next
  case (Some x)
  then show ?thesis
    by (cases x)
      (auto simp: validateError_def Error_Code_def Error_Unwrap_def newInvalidCodeError_def
        newNilUnderlyingError_def newEmptyUnderlyingError_def isValidCode_CodeInternal
        Errorf_w_def Let_def split: option.splits)
qed

text \<open>
  \<^verbatim>\<open>ToProto\<close> never dereferences nil: on a non-nil receiver it returns the code and the
  message of the validated error.
\<close>

lemma ToProto_returns:
  "\<exists>c u. validateError (Some x) = Some (MkError c (Some u)) \<and>
     ToProto (Some x) = Returns (Some \<lparr>protoCode = c, protoMessage = error_Error u\<rparr>)"
proof -
  obtain c u where v: "validateError (Some x) = Some (MkError c (Some u))" and c: "isValidCode c"
    using validateError_shape [of "Some x"] by blast
  then have "ToProto (Some x) = Returns (Some \<lparr>protoCode = c, protoMessage = error_Error u\<rparr>)"
    by (simp add: ToProto_def Code_ToProto_def Error_Code_def Error_Unwrap_def)
  with v show ?thesis by blast
qed

text \<open>
  Claim C7. For every code \<open>c\<close> and every error \<open>e\<close> (nil included), \<open>NewError c e\<close> is an
  \<^verbatim>\<open>Error\<close> whose code lies in 1..16 and whose underlying error is non-nil with a non-empty
  message. If \<open>c\<close> is outside 1..16, or \<open>e\<close> is nil, or the message of \<open>e\<close> is empty, the
  result has code \<open>CodeInternal\<close> (13) and an explanatory underlying error whose message
  starts with \<^verbatim>\<open>Error created with code\<close>; otherwise the result has code \<open>c\<close> and
  underlying \<open>e\<close>.
\<close>

theorem NewError_normalizes:
  "(\<exists>c' u. NewError c e = Some (MkError c' (Some u)) \<and> 1 \<le> unat c' \<and> unat c' \<le> 16
       \<and> error_Error u \<noteq> [])
   \<and> (\<not> (1 \<le> unat c \<and> unat c \<le> 16) \<or> e = None \<or> (\<exists>x. e = Some x \<and> error_Error x = [])
       \<longrightarrow> (\<exists>rest. NewError c e = Some (MkError CodeInternal
               (Some (ErrorString (''Error created with code '' @ rest))))
             \<or> NewError c e = Some (MkError CodeInternal
               (Some (FmtWrapError (''Error created with code '' @ rest) e)))))
   \<and> (1 \<le> unat c \<and> unat c \<le> 16 \<and> (\<exists>x. e = Some x \<and> error_Error x \<noteq> [])
       \<longrightarrow> NewError c e = Some (MkError c e))
   \<and> CodeInternal = 13"
proof (intro conjI impI)
  show "\<exists>c' u. NewError c e = Some (MkError c' (Some u)) \<and> 1 \<le> unat c' \<and> unat c' \<le> 16
       \<and> error_Error u \<noteq> []"
    using validateError_shape [of "Some (MkError c e)"]
    by (simp add: NewError_def isValidCode_range)
next
  assume "\<not> (1 \<le> unat c \<and> unat c \<le> 16) \<or> e = None \<or> (\<exists>x. e = Some x \<and> error_Error x = [])"
  then show "\<exists>rest. NewError c e = Some (MkError CodeInternal
               (Some (ErrorString (''Error created with code '' @ rest))))
             \<or> NewError c e = Some (MkError CodeInternal
               (Some (FmtWrapError (''Error created with code '' @ rest) e)))"
    by (auto simp: NewError_def validateError_def Error_Code_def Error_Unwrap_def
        newInvalidCodeError_def newNilUnderlyingError_def newEmptyUnderlyingError_def
        Errorf_w_def Let_def isValidCode_range split: option.splits)
next
  assume "1 \<le> unat c \<and> unat c \<le> 16 \<and> (\<exists>x. e = Some x \<and> error_Error x \<noteq> [])"
  then show "NewError c e = Some (MkError c e)"
    by (auto simp: NewError_def validateError_def Error_Code_def Error_Unwrap_def
        Let_def isValidCode_range)
next
  show "CodeInternal = 13" by (simp add: CodeInternal_def)
qed

text \<open>
  The four cases on concrete inputs: an invalid code, a nil underlying error, an empty
  message, and a valid pair.
\<close>

theorem NewError_normalizes_witness:
  "NewError 0 (Some (ErrorString ''boom'')) =
     Some (MkError 13 (Some (FmtWrapError ''Error created with code code_0: boom''
       (Some (ErrorString ''boom'')))))
   \<and> NewError 4 None =
     Some (MkError 13 (Some (ErrorString
       ''Error created with code deadline_exceeded and nil underlying error'')))
   \<and> NewError 4 (Some (ErrorString [])) =
     Some (MkError 13 (Some (ErrorString
       ''Error created with code deadline_exceeded and empty underlying error'')))
   \<and> NewError 4 (Some (ErrorString ''hello'')) = Some (MkError 4 (Some (ErrorString ''hello'')))"
  using NewError_normalizes [of 4 "Some (ErrorString ''hello'')"]
  by (simp add: NewError_def validateError_def Error_Code_def Error_Unwrap_def
        newInvalidCodeError_def newNilUnderlyingError_def newEmptyUnderlyingError_def
        Errorf_w_def Let_def isValidCode_range CodeInternal_def Code_String_def
        CodeCanceled_def CodeUnknown_def CodeInvalidArgument_def CodeDeadlineExceeded_def
        CodeNotFound_def CodeAlreadyExists_def CodePermissionDenied_def CodeResourceExhausted_def
        CodeFailedPrecondition_def CodeAborted_def CodeOutOfRange_def CodeUnimplemented_def
        CodeUnavailable_def CodeDataLoss_def CodeUnauthenticated_def formatNat_0)

subsection \<open>Exit errors\<close>

lemma validateExitError_nonzero:
  "validateExitError p \<noteq> None \<and> ExitError_ExitCode (validateExitError p) \<noteq> 0"
  by (cases p)
    (simp_all add: validateExitError_def ExitError_ExitCode_def newInvalidCodeExitError_def
      exitCodeInternal_def)

text \<open>
  Claim C8. For every error \<open>e\<close>, \<open>NewExitError 0 e\<close> is an \<^verbatim>\<open>ExitError\<close> with exit code 1
  whose underlying error wraps the offending \<^verbatim>\<open>ExitError{0, e}\<close>; for every \<open>n \<noteq> 0\<close>,
  \<open>NewExitError n e\<close> is the \<^verbatim>\<open>ExitError\<close> with exit code \<open>n\<close> and underlying \<open>e\<close>. Hence
  neither \<open>NewExitError\<close> nor \<open>WrapExitError\<close> on a non-nil error returns nil or an exit
  code 0.
\<close>

theorem NewExitError_never_zero:
  "NewExitError 0 e =
     Some (MkExitError 1 (Some (FmtWrapError
       (''ExitError created with code 0: '' @ ExitError_Error (Some (MkExitError 0 e)))
       (Some (ExitErrorPtr (Some (MkExitError 0 e)))))))
   \<and> (n \<noteq> 0 \<longrightarrow> NewExitError n e = Some (MkExitError n e))
   \<and> NewExitError n e \<noteq> None \<and> ExitError_ExitCode (NewExitError n e) \<noteq> 0
   \<and> WrapExitError (Some err) \<noteq> None \<and> ExitError_ExitCode (WrapExitError (Some err)) \<noteq> 0"
proof -
  have zero: "NewExitError 0 e =
     Some (MkExitError 1 (Some (FmtWrapError
       (''ExitError created with code 0: '' @ ExitError_Error (Some (MkExitError 0 e)))
       (Some (ExitErrorPtr (Some (MkExitError 0 e)))))))"
    by (simp add: NewExitError_def validateExitError_def ExitError_ExitCode_def
        newInvalidCodeExitError_def exitCodeInternal_def Errorf_w_def Itoa_0)
  have nonzero: "n \<noteq> 0 \<longrightarrow> NewExitError n e = Some (MkExitError n e)"
    by (simp add: NewExitError_def validateExitError_def ExitError_ExitCode_def)
  have new: "NewExitError n e \<noteq> None \<and> ExitError_ExitCode (NewExitError n e) \<noteq> 0"
    unfolding NewExitError_def by (rule validateExitError_nonzero)
  have wrap: "WrapExitError (Some err) \<noteq> None
      \<and> ExitError_ExitCode (WrapExitError (Some err)) \<noteq> 0"
  proof (cases "errors_As_ExitError err")
    case None
    then show ?thesis
      using validateExitError_nonzero [of "Some (MkExitError exitCodeInternal (Some err))"]
      by (simp add: WrapExitError_def NewExitError_def)
  next
    case (Some p)
    then show ?thesis
      using validateExitError_nonzero [of p] by (simp add: WrapExitError_def)
  qed
  from zero nonzero new wrap show ?thesis by blast
qed

text \<open>
  On concrete inputs: code 0 is coerced to 1, code 3 is kept, and \<open>WrapExitError\<close> gives 1
  for a plain error and for a nil \<^verbatim>\<open>*ExitError\<close> stored in the interface, and keeps 7.
\<close>

theorem NewExitError_never_zero_witness:
  "NewExitError 0 (Some (ErrorString ''x'')) =
     Some (MkExitError 1 (Some (FmtWrapError
       ''ExitError created with code 0: Exited with code 0: x''
       (Some (ExitErrorPtr (Some (MkExitError 0 (Some (ErrorString ''x'')))))))))
   \<and> NewExitError 3 (Some (ErrorString ''x'')) = Some (MkExitError 3 (Some (ErrorString ''x'')))
   \<and> ExitError_ExitCode (WrapExitError (Some (ErrorString ''x''))) = 1
   \<and> ExitError_ExitCode (WrapExitError (Some (ExitErrorPtr None))) = 1
   \<and> ExitError_ExitCode (WrapExitError (Some (ExitErrorPtr (Some (MkExitError 7 None))))) = 7"
  using NewExitError_never_zero [of "Some (ErrorString ''x'')" 3 "ErrorString ''x''"]
  by (simp add: Itoa_0 WrapExitError_def NewExitError_def validateExitError_def
      ExitError_ExitCode_def newInvalidCodeExitError_def exitCodeInternal_def)

subsection \<open>Decoding a response\<close>

lemma NewErrorForProto_Some: "NewErrorForProto P (Some pe) \<noteq> None"
proof (cases "CodeForProto P (protoCode pe)")
  case (Inl err)
  then show ?thesis
    using validateError_shape [of "Some (MkError CodeInternal
      (Some (Errorf_w (''Error created with invalid code: '' @ protoMessage pe @ '': '') (Some err))))"]
    by (auto simp: NewErrorForProto_def NewError_def)
next
  case (Inr code)
  then show ?thesis
    using validateError_shape [of "Some (MkError code (Some (ErrorString (protoMessage pe))))"]
    by (auto simp: NewErrorForProto_def NewError_def)
qed

lemma NewErrorForProto_valid:
  "isValidCode (protoCode pe) \<Longrightarrow> protoMessage pe \<noteq> [] \<Longrightarrow>
     NewErrorForProto P (Some pe) = Some (MkError (protoCode pe) (Some (ErrorString (protoMessage pe))))"
  by (simp add: NewErrorForProto_def CodeForProto_def NewError_def validateError_def
      Error_Code_def Error_Unwrap_def)

text \<open>
  When the payload cannot be stored in the response value, that failure is what
  \<open>unmarshalResponse\<close> returns.
\<close>

lemma unmarshalResponse_payload_fails:
  "data \<noteq> [] \<Longrightarrow> codecForFormat f = Inr c \<Longrightarrow>
   Unmarshal_Response P c data = Inr r \<Longrightarrow> responseValue r = Some a \<Longrightarrow>
   toProtoMessage v = Inr dst \<Longrightarrow> anypb_UnmarshalTo P a dst = (Some err, m) \<Longrightarrow>
     unmarshalResponse P f data v = (Some err, stored v m)"
  by (simp add: unmarshalResponse_def)

text \<open>
  Claim C9. For every response envelope whose bytes decode (the envelope by the codec of
  the format, the payload by \<^verbatim>\<open>anypb.UnmarshalTo\<close> into the caller's response value) and
  that carries both a payload and an error, \<open>unmarshalResponse\<close> stores the decoded
  payload in the caller's response value and returns the \<^verbatim>\<open>Error\<close> synthesized from the
  envelope's error, which is not nil and, for a valid code and a non-empty message, has
  that code and that message. For empty input bytes it returns nil and leaves the
  response value as it was.
\<close>

theorem unmarshalResponse_keeps_payload:
  "(data \<noteq> [] \<and> codecForFormat f = Inr c
      \<and> Unmarshal_Response P c data = Inr \<lparr>responseValue = Some a, responseError = Some pe\<rparr>
      \<and> toProtoMessage v = Inr dst \<and> anypb_UnmarshalTo P a dst = (None, m)
    \<longrightarrow> unmarshalResponse P f data v = (Some (ErrorPtr (NewErrorForProto P (Some pe))), stored v m)
        \<and> NewErrorForProto P (Some pe) \<noteq> None
        \<and> (isValidCode (protoCode pe) \<and> protoMessage pe \<noteq> [] \<longrightarrow>
             NewErrorForProto P (Some pe) =
               Some (MkError (protoCode pe) (Some (ErrorString (protoMessage pe))))))
   \<and> unmarshalResponse P f [] v = (None, v)"
  using NewErrorForProto_Some [of P pe] NewErrorForProto_valid [of pe P]
  by (auto simp: unmarshalResponse_def unmarshalResponse_error_def)

text \<open>
  An envelope with the payload \<^verbatim>\<open>partial\<close> and the error \<^verbatim>\<open>{4, hello}\<close>: the payload
  replaces the old response and the error comes back; empty bytes change nothing.
\<close>

theorem unmarshalResponse_keeps_payload_witness:
  "unmarshalResponse exampleProto FormatBinary ''both'' (AnyMessage ''old'') =
     (Some (ErrorPtr (Some (MkError CodeDeadlineExceeded (Some (ErrorString ''hello''))))),
      AnyMessage ''partial'')
   \<and> unmarshalResponse exampleProto FormatBinary [] (AnyMessage ''old'') = (None, AnyMessage ''old'')"
  using unmarshalResponse_keeps_payload [of "''both''" FormatBinary binaryCodec exampleProto
      "''partial''" "\<lparr>protoCode = 4, protoMessage = ''hello''\<rparr>" "AnyMessage ''old''" "Some ''old''"
      "Some ''partial''"]
  by (simp add: exampleProto_def codecForFormat_def toProtoMessage_def stored_def
      isValidCode_range CodeDeadlineExceeded_def)

subsection \<open>Handler\<close>

lemma WrapError_Some: "WrapError (Some e) \<noteq> None"
proof (cases "errors_As_Error e")
  case None
  then show ?thesis
    using validateError_shape [of "Some (MkError CodeUnknown (Some e))"]
    by (auto simp: WrapError_def NewError_def)
next
  case (Some p)
  then show ?thesis
    using validateError_shape [of p] by (auto simp: WrapError_def)
qed

lemma ToProto_WrapError: "\<exists>pe. ToProto (WrapError (Some e)) = Returns (Some pe)"
proof -
  obtain x where "WrapError (Some e) = Some x"
    using WrapError_Some [of e] by auto
  then show ?thesis
    using ToProto_returns [of x] by auto
qed

lemma marshalResponse_error_only:
  "codecForFormat f = Inr c \<Longrightarrow> ToProto (WrapError err) = Returns pe \<Longrightarrow>
     marshalResponse P f AnyNil err =
       Returns (Marshal_Response P c \<lparr>responseValue = None, responseError = pe\<rparr>)"
  by (simp add: marshalResponse_def marshalResponse_envelope_def)

text \<open>
  Marshalling a response and writing an error never dereference a nil error: \<open>ToProto\<close>
  returns on every result of \<open>WrapError\<close>.
\<close>

lemma ToProto_WrapError_returns: "ToProto (WrapError err) \<noteq> Panics"
proof (cases err)
  case None
  then show ?thesis by (simp add: WrapError_def ToProto_def)
next
  case (Some e)
  then show ?thesis using ToProto_WrapError [of e] by auto
qed

lemma marshalResponse_returns: "marshalResponse P f v err \<noteq> Panics"
  using ToProto_WrapError_returns [of err]
  by (auto simp: marshalResponse_def marshalResponse_envelope_def
      split: sum.splits outcome.splits)

lemma writeError_returns: "writeError P f out err \<noteq> Panics"
  using marshalResponse_returns [of P f AnyNil err]
  by (auto simp: writeError_def split: option.splits outcome.splits sum.splits prod.splits)

lemma formatNat_4: "formatNat 4 = ''4''"
  by (simp add: formatNat.simps digitChar_def)

lemma NewError_example:
  "NewError CodeDeadlineExceeded (Some (ErrorString ''hello'')) =
     Some (MkError CodeDeadlineExceeded (Some (ErrorString ''hello'')))"
  by (simp add: NewError_def validateError_def Error_Code_def Error_Unwrap_def
      isValidCode_range CodeDeadlineExceeded_def)

lemma ToProto_example:
  "ToProto (WrapError (Some (ErrorPtr (Some (MkError CodeDeadlineExceeded (Some (ErrorString ''hello'')))))))
     = Returns (Some \<lparr>protoCode = 4, protoMessage = ''hello''\<rparr>)"
  by (simp add: WrapError_def validateError_def Error_Code_def Error_Unwrap_def ToProto_def
      Code_ToProto_def isValidCode_range CodeDeadlineExceeded_def)

text \<open>
  Claim C1, as stated, fails: the user function returns a non-nil error, the write to the
  standard output succeeds, and \<open>Handle\<close> returns nil, not that error. The deferred
  function overwrites \<^verbatim>\<open>retErr\<close> with the result of \<open>writeError\<close>, which is nil after a
  successful write.
\<close>

theorem Handle_returns_error_counterexample:
  "failingHandle (AnyMessage []) =
     (AnyNil, Some (ErrorPtr (Some (MkError CodeDeadlineExceeded (Some (ErrorString ''hello''))))))
   \<and> Handle exampleProto terminalEnv (AnyMessage []) failingHandle [] =
     Returns (None, bufferWriter\<lparr>sink := ''error 4 hello''\<rparr>)"
  by (simp add: failingHandle_def NewError_example Handle_def Handle_body_def terminalEnv_def
      readStdin_def unmarshalRequest_def writeError_def marshalResponse_def
      marshalResponse_envelope_def ToProto_example codecForFormat_def exampleProto_def
      Writer_Write_def bufferWriter_def newHandleOptions_def validateFormat_def isValidFormat_def
      minFormat_def maxFormat_def FormatBinary_def FormatJSON_def formatNat_4)

text \<open>
  Claim C1, amended. For every invocation of \<open>Handle\<close> with a valid format in which the
  standard input is read and the request is unmarshalled without error, the user
  function returns a non-nil error \<open>e\<close>, and the envelope is marshalled and written to
  the standard output without error: the bytes written are the marshalled response
  envelope with no payload and with the error \<open>ToProto (WrapError e)\<close>, which is not nil,
  and \<open>Handle\<close> returns nil to its caller.
\<close>

theorem Handle_user_error:
  assumes "f = handleFormat (fold (\<lambda>option acc. option acc) options newHandleOptions)"
    and "validateFormat f = None"
    and "readStdin (Stdin handleEnv) = (data, None)"
    and "unmarshalRequest P f data request = (None, request')"
    and "handle request' = (response, Some e)"
    and "codecForFormat f = Inr c"
    and "ToProto (WrapError (Some e)) = Returns pe"
    and "Marshal_Response P c \<lparr>responseValue = None, responseError = pe\<rparr> = Inr out"
    and "Writer_Write (Stdout handleEnv) out = (None, stdout')"
  shows "Handle P handleEnv request handle options = Returns (None, stdout') \<and> pe \<noteq> None"
proof -
  have body: "Handle_body P f handleEnv request handle = Returns (Some e, Stdout handleEnv)"
    using assms(3-5) by (simp add: Handle_body_def)
  have "marshalResponse P f AnyNil (Some e) = Returns (Inr out)"
    using marshalResponse_error_only [OF assms(6,7), of P] assms(8) by simp
  then have "writeError P f (Stdout handleEnv) (Some e) = Returns (None, stdout')"
    using assms(9) by (simp add: writeError_def)
  with body assms(1,2) have "Handle P handleEnv request handle options = Returns (None, stdout')"
    by (simp add: Handle_def Let_def)
  moreover have "pe \<noteq> None"
    using ToProto_WrapError [of e] assms(7) by auto
  ultimately show ?thesis by simp
qed

text \<open>
  When the write of the error envelope fails, \<open>Handle\<close> returns the failure of the write.
\<close>

lemma Handle_user_error_write_fails:
  assumes "f = handleFormat (fold (\<lambda>option acc. option acc) options newHandleOptions)"
    and "validateFormat f = None"
    and "readStdin (Stdin handleEnv) = (data, None)"
    and "unmarshalRequest P f data request = (None, request')"
    and "handle request' = (response, Some e)"
    and "codecForFormat f = Inr c"
    and "ToProto (WrapError (Some e)) = Returns pe"
    and "Marshal_Response P c \<lparr>responseValue = None, responseError = pe\<rparr> = Inr out"
    and "Writer_Write (Stdout handleEnv) out = (Some werr, stdout')"
  shows "Handle P handleEnv request handle options =
    Returns (Some (Errorf_w ''failed to write error to stdout: '' (Some werr)), stdout')"
proof -
  have body: "Handle_body P f handleEnv request handle = Returns (Some e, Stdout handleEnv)"
    using assms(3-5) by (simp add: Handle_body_def)
  have "marshalResponse P f AnyNil (Some e) = Returns (Inr out)"
    using marshalResponse_error_only [OF assms(6,7), of P] assms(8) by simp
  then have "writeError P f (Stdout handleEnv) (Some e) =
      Returns (Some (Errorf_w ''failed to write error to stdout: '' (Some werr)), stdout')"
    using assms(9) by (simp add: writeError_def)
  with body assms(1,2) show ?thesis
    by (simp add: Handle_def Let_def)
qed

text \<open>
  The handler of \<^verbatim>\<open>EchoError\<close> with the JSON format: the envelope \<^verbatim>\<open>{error: {4, hello}}\<close> is
  on the standard output and the result is nil.
\<close>

theorem Handle_user_error_witness:
  "Handle exampleProto terminalEnv (AnyMessage []) failingHandle [HandleWithFormat FormatJSON] =
     Returns (None, bufferWriter\<lparr>sink := ''error 4 hello''\<rparr>)"
proof -
  have "Handle exampleProto terminalEnv (AnyMessage []) failingHandle [HandleWithFormat FormatJSON]
      = Returns (None, bufferWriter\<lparr>sink := ''error 4 hello''\<rparr>)
    \<and> Some \<lparr>protoCode = 4, protoMessage = ''hello''\<rparr> \<noteq> None"
  proof (rule Handle_user_error [where f = FormatJSON and data = "[]" and request' = "AnyMessage []"
        and response = AnyNil and c = jsonCodec and out = "''error 4 hello''"
        and e = "ErrorPtr (Some (MkError CodeDeadlineExceeded (Some (ErrorString ''hello''))))"])
    show "FormatJSON = handleFormat (fold (\<lambda>option acc. option acc) [HandleWithFormat FormatJSON] newHandleOptions)"
      by (simp add: HandleWithFormat_def newHandleOptions_def)
    show "validateFormat FormatJSON = None"
      by (simp add: validateFormat_def isValidFormat_def minFormat_def maxFormat_def
          FormatBinary_def FormatJSON_def)
    show "readStdin (Stdin terminalEnv) = ([], None)"
      by (simp add: readStdin_def terminalEnv_def)
    show "unmarshalRequest exampleProto FormatJSON [] (AnyMessage []) = (None, AnyMessage [])"
      by (simp add: unmarshalRequest_def)
    show "failingHandle (AnyMessage []) =
        (AnyNil, Some (ErrorPtr (Some (MkError CodeDeadlineExceeded (Some (ErrorString ''hello''))))))"
      by (simp add: failingHandle_def NewError_example)
    show "codecForFormat FormatJSON = Inr jsonCodec"
      by (simp add: codecForFormat_def FormatBinary_def FormatJSON_def)
    show "ToProto (WrapError (Some (ErrorPtr (Some (MkError CodeDeadlineExceeded (Some (ErrorString ''hello''))))))) =
        Returns (Some \<lparr>protoCode = 4, protoMessage = ''hello''\<rparr>)"
      by (rule ToProto_example)
    show "Marshal_Response exampleProto jsonCodec
        \<lparr>responseValue = None, responseError = Some \<lparr>protoCode = 4, protoMessage = ''hello''\<rparr>\<rparr> =
        Inr ''error 4 hello''"
      by (simp add: exampleProto_def formatNat_4)
    show "Writer_Write (Stdout terminalEnv) ''error 4 hello'' = (None, bufferWriter\<lparr>sink := ''error 4 hello''\<rparr>)"
      by (simp add: Writer_Write_def terminalEnv_def bufferWriter_def)
  qed
  then show ?thesis by simp
qed

subsection \<open>Client\<close>

lemma Client_Spec_cached:
  "clientSpec c = Some s \<Longrightarrow> Client_Spec P L c w = ((Some s, clientSpecErr c), c, w)"
  by (simp add: Client_Spec_def)

lemma validateFormat_None_iff: "validateFormat f = None \<longleftrightarrow> f = FormatBinary \<or> f = FormatJSON"
proof -
  have "isValidFormat f \<longleftrightarrow> unat f = 1 \<or> unat f = 2"
    by (auto simp: isValidFormat_def minFormat_def maxFormat_def FormatBinary_def FormatJSON_def
        word_le_nat_alt)
  moreover have "unat f = 1 \<longleftrightarrow> f = 1" "unat f = 2 \<longleftrightarrow> f = 2"
    by (auto simp: word_unat_eq_iff)
  ultimately show ?thesis
    by (simp add: validateFormat_def FormatBinary_def FormatJSON_def)
qed

lemma Format_String_valid:
  "validateFormat f = None \<Longrightarrow> Format_String f = (if f = FormatBinary then ''binary'' else ''json'')"
  by (auto simp: validateFormat_None_iff Format_String_def formatBinaryString_def
      formatJSONString_def)

lemma validateFormat_Binary: "validateFormat FormatBinary = None"
  by (simp add: validateFormat_None_iff)

text \<open>
  \<open>Client_Spec\<close> returns a spec or an error, so \<open>Call\<close> never dereferences a nil spec.
  (With a nil response value and a payload in the envelope, the call of
  \<^verbatim>\<open>anypb.UnmarshalTo\<close> on a nil message is the protobuf library's; the model leaves its
  outcome to the parameter.)
\<close>

lemma Client_Spec_not_both_nil: "fst (Client_Spec P L c w) \<noteq> (None, None)"
  by (auto simp: Client_Spec_def split: prod.splits sum.splits)

text \<open>
  For any runner: once the procedure is found and the request marshalled, \<open>Call\<close> is
  one run of the runner on the computed argv, followed by the decoding of its output.
\<close>

lemma Call_runs_runner:
  assumes "validateFormat (clientFormat c) = None"
    and "Client_Spec P L c w = ((Some s, None), c1, w1)"
    and "ProcedureForPath s procedurePath = Some p"
    and "marshalRequest P (clientFormat c) request = Inr data"
  shows "Call P L c procedurePath request response w =
      (case clientRunner c
              \<lparr>Args = (if args p = [] then [path p] else args p)
                  @ [''--format'', Format_String (clientFormat c)],
               EnvStdin = Some data\<rparr> w1 of
         ((Some err, out), w2) \<Rightarrow>
           Returns (Some (ExitErrorPtr (WrapExitError (Some err))), response, c1, w2)
       | ((None, out), w2) \<Rightarrow>
           (case unmarshalResponse P (clientFormat c) out response of
              (err, response') \<Rightarrow> Returns (err, response', c1, w2)))"
  using assms
  by (simp add: Call_def Procedure_Args_def Procedure_Path_def FormatFlagName_def Let_def)

text \<open>
  Claim C6. For every \<open>Call\<close> of a client with a valid format on a path whose procedure
  \<open>p\<close> is found in the spec that \<open>Client_Spec\<close> returns (the cached one when there is
  one, and then neither the client nor the runner's state changes before the call), and
  whose request is marshalled to \<open>data\<close>: the runner is run once more, with the argv
  \<open>[path p]\<close> when \<open>args p\<close> is empty and \<open>args p\<close> otherwise, followed by exactly
  \<^verbatim>\<open>--format\<close> and the format string of the client (\<^verbatim>\<open>binary\<close> or \<^verbatim>\<open>json\<close>), and with \<open>data\<close>
  as standard input. The runner records the environments it is run with.
\<close>

theorem Call_argv:
  assumes "clientRunner c = recordingRunner answer"
    and "validateFormat (clientFormat c) = None"
    and "Client_Spec P L c runs = ((Some s, None), c1, runs1)"
    and "ProcedureForPath s procedurePath = Some p"
    and "marshalRequest P (clientFormat c) request = Inr data"
  shows "(\<exists>err response'.
      Call P L c procedurePath request response runs =
        Returns (err, response', c1,
          runs1 @ [\<lparr>Args = (if args p = [] then [path p] else args p)
                      @ [''--format'', Format_String (clientFormat c)],
                    EnvStdin = Some data\<rparr>]))
    \<and> Format_String (clientFormat c) = (if clientFormat c = FormatBinary then ''binary'' else ''json'')
    \<and> (clientSpec c = Some s \<longrightarrow> c1 = c \<and> runs1 = runs)"
proof (intro conjI impI)
  define argv where "argv = (if args p = [] then [path p] else args p)
      @ [''--format'', Format_String (clientFormat c)]"
  have call: "Call P L c procedurePath request response runs =
      (case recordingRunner answer \<lparr>Args = argv, EnvStdin = Some data\<rparr> runs1 of
         ((Some err, out), w2) \<Rightarrow>
           Returns (Some (ExitErrorPtr (WrapExitError (Some err))), response, c1, w2)
       | ((None, out), w2) \<Rightarrow>
           (case unmarshalResponse P (clientFormat c) out response of
              (err, response') \<Rightarrow> Returns (err, response', c1, w2)))"
    using assms
    by (simp add: Call_def Procedure_Args_def Procedure_Path_def FormatFlagName_def Let_def
        argv_def)
  obtain rerr out where a: "answer \<lparr>Args = argv, EnvStdin = Some data\<rparr> = (rerr, out)"
    by (cases "answer \<lparr>Args = argv, EnvStdin = Some data\<rparr>")
  obtain err response' where u: "unmarshalResponse P (clientFormat c) out response = (err, response')"
    by (cases "unmarshalResponse P (clientFormat c) out response")
  have "\<exists>err response'.
      Call P L c procedurePath request response runs =
        Returns (err, response', c1, runs1 @ [\<lparr>Args = argv, EnvStdin = Some data\<rparr>])"
    by (cases rerr) (simp_all add: call recordingRunner_def a u)
  then show "\<exists>err response'.
      Call P L c procedurePath request response runs =
        Returns (err, response', c1,
          runs1 @ [\<lparr>Args = (if args p = [] then [path p] else args p)
                      @ [''--format'', Format_String (clientFormat c)],
                    EnvStdin = Some data\<rparr>])"
    by (simp only: argv_def)
  show "Format_String (clientFormat c) = (if clientFormat c = FormatBinary then ''binary'' else ''json'')"
    using assms(2) by (rule Format_String_valid)
  show "c1 = c" "runs1 = runs" if "clientSpec c = Some s"
    using Client_Spec_cached [OF that, of P L runs] assms(3) by simp_all
qed

text \<open>
  Two calls on a client with a cached spec: \<^verbatim>\<open>/svc/Echo\<close> is run as
  \<^verbatim>\<open>echo request --format binary\<close> and \<^verbatim>\<open>/svc/List\<close> as \<^verbatim>\<open>/svc/List --format binary\<close>.
\<close>

theorem Call_argv_witness:
  "(\<exists>err response'.
      Call exampleProto exampleLib exampleClient ''/svc/Echo'' (AnyMessage ''hello'') (AnyMessage []) [] =
        Returns (err, response', exampleClient,
          [\<lparr>Args = [''echo'', ''request'', ''--format'', ''binary''],
            EnvStdin = Some ''request hello''\<rparr>]))
   \<and> (\<exists>err response'.
      Call exampleProto exampleLib exampleClient ''/svc/List'' AnyNil (AnyMessage []) [] =
        Returns (err, response', exampleClient,
          [\<lparr>Args = [''/svc/List'', ''--format'', ''binary''], EnvStdin = Some []\<rparr>]))"
proof -
  have r: "clientRunner exampleClient = recordingRunner examplePlugin"
    and f: "validateFormat (clientFormat exampleClient) = None"
    and s: "Client_Spec exampleProto exampleLib exampleClient [] =
      ((Some exampleSpec, None), exampleClient, [])"
    by (simp_all add: exampleClient_def validateFormat_Binary Client_Spec_def)
  have p1: "ProcedureForPath exampleSpec ''/svc/Echo'' =
      Some \<lparr>path = ''/svc/Echo'', args = [''echo'', ''request'']\<rparr>"
    and p2: "ProcedureForPath exampleSpec ''/svc/List'' = Some \<lparr>path = ''/svc/List'', args = []\<rparr>"
    by (simp_all add: ProcedureForPath_def exampleSpec_def)
  have m1: "marshalRequest exampleProto (clientFormat exampleClient) (AnyMessage ''hello'') =
      Inr ''request hello''"
    and m2: "marshalRequest exampleProto (clientFormat exampleClient) AnyNil = Inr []"
    by (simp_all add: marshalRequest_def toProtoMessage_def exampleProto_def codecForFormat_def
        exampleClient_def)
  have fs: "Format_String (clientFormat exampleClient) = ''binary''"
    by (simp add: exampleClient_def Format_String_def formatBinaryString_def)
  show ?thesis
    using Call_argv [OF r f s p1 m1, of "AnyMessage []"] Call_argv [OF r f s p2 m2, of "AnyMessage []"]
    by (simp add: fs)
qed

text \<open>
  A fresh client performs the handshake first: the runner sees \<^verbatim>\<open>--protocol\<close>, then
  \<^verbatim>\<open>--spec --format binary\<close>, then the call.
\<close>

lemma Call_handshake_example:
  "\<exists>c'. Call exampleProto exampleLib (newClient (recordingRunner examplePlugin) [])
       ''/svc/Echo'' (AnyMessage ''hello'') (AnyMessage []) [] =
     Returns (None, AnyMessage ''hello'', c',
       [\<lparr>Args = [''--protocol''], EnvStdin = None\<rparr>,
        \<lparr>Args = [''--spec'', ''--format'', ''binary''], EnvStdin = None\<rparr>,
        \<lparr>Args = [''echo'', ''request'', ''--format'', ''binary''], EnvStdin = Some ''request hello''\<rparr>])"
  by (simp add: Call_def newClient_def newClientOptions_def validateFormat_Binary Client_Spec_def
      getSpecUncached_def checkProtocolVersion_def getProtocolVersionUncached_def
      recordingRunner_def examplePlugin_def ProtocolFlagName_def SpecFlagName_def
      FormatFlagName_def Format_String_def formatBinaryString_def unmarshalProtocol_def
      exampleLib_def protocolVersion_def unmarshalSpec_def codecForFormat_def exampleProto_def
      NewSpecForProto_def NewProcedureForProto_def newProcedure_def validateProcedure_def
      ProcedureWithArgs_def newProcedureOptions_def minProcedureArgLength_def argRegexp_def
      url_defs NewSpec_def newSpec_def validateProcedures_def Procedure_Path_def
      Procedure_Args_def ProcedureForPath_def marshalRequest_def toProtoMessage_def
      unmarshalResponse_def unmarshalResponse_error_def stored_def Let_def)

subsection \<open>Nil receivers\<close>

text \<open>
  Claim C10. \<open>WrapError\<close> and \<open>WrapExitError\<close> of the nil error are nil, and every method
  of \<^verbatim>\<open>*Error\<close> and \<^verbatim>\<open>*ExitError\<close> returns on a nil receiver: \<^verbatim>\<open>Code()\<close> is 0, \<^verbatim>\<open>Error()\<close> is
  the empty string, \<^verbatim>\<open>Unwrap()\<close> is nil, \<^verbatim>\<open>ToProto()\<close> is nil, \<^verbatim>\<open>ExitCode()\<close> is 0.
\<close>

theorem nil_receivers:
  "WrapError None = None \<and> WrapExitError None = None
   \<and> Error_Code None = 0 \<and> Error_Error None = [] \<and> Error_Unwrap None = None
   \<and> ToProto None = Returns None
   \<and> ExitError_ExitCode None = 0 \<and> ExitError_Error None = [] \<and> ExitError_Unwrap None = None"
  by (simp add: WrapError_def WrapExitError_def Error_Code_def Error_Unwrap_def ToProto_def
      ExitError_ExitCode_def ExitError_Unwrap_def)

end
